theory Spec2Isabelle
  imports Complex_Main "HOL-Library.Log_Nat"
begin

section \<open>JavaScript numbers\<close>

text \<open>
  Every amount of the program is a JavaScript \<open>number\<close>: an IEEE-754 binary64 value.
  A finite value is kept as the rational it denotes; the results of the arithmetic
  operators are rounded to the nearest double, ties to even (\<open>rnd\<close>), with gradual
  underflow below \<open>2 powi (- 1022)\<close> and overflow to the infinities.
  The sign of zero is not kept: \<open>-0\<close> and \<open>+0\<close> are both \<open>Fin 0\<close>. The program
  tells them apart nowhere (\<open>-0 === 0\<close> holds, \<open>-0\<close> is falsy, and no division
  by a zero that could be negative is reachable).
\<close>

datatype jsnum = Fin rat | PInf | NInf | NaN

definition ilog2 :: "rat \<Rightarrow> int" where
  \<comment> \<open>the binary exponent of a non-zero rational: \<open>2 powi ilog2 q \<le> \<bar>q\<bar> < 2 powi (ilog2 q + 1)\<close>\<close>
  "ilog2 q = (let (n, d) = quotient_of \<bar>q\<bar>; k = bitlen n - bitlen d
              in if 2 powi k \<le> \<bar>q\<bar> then k else k - 1)"

definition round_half_even :: "rat \<Rightarrow> int" where
  "round_half_even x = (let f = \<lfloor>x\<rfloor>; d = x - of_int f
     in if d < 1 / 2 then f else if 1 / 2 < d then f + 1 else if even f then f else f + 1)"

definition ulp_exp :: "rat \<Rightarrow> int" where
  \<comment> \<open>the exponent of the unit in the last place of the binade of \<open>q\<close>: 53 significant bits,
      and the subnormal grid \<open>2 powi (- 1074)\<close> at the bottom\<close>
  "ulp_exp q = max (ilog2 q - 52) (- 1074)"

definition rnd :: "rat \<Rightarrow> jsnum" where
  "rnd q = (if q = 0 then Fin 0 else
     let e = ulp_exp q;
         r = of_int (round_half_even (q / (2 powi e))) * (2 powi e)
     in if 1024 \<le> ilog2 r then (if 0 < r then PInf else NInf) else Fin r)"

definition is_double :: "jsnum \<Rightarrow> bool" where
  \<comment> \<open>the values a \<open>number\<close> can hold: a finite one is a fixed point of the rounding\<close>
  "is_double x = (case x of Fin q \<Rightarrow> rnd q = Fin q | _ \<Rightarrow> True)"

fun fneg :: "jsnum \<Rightarrow> jsnum" where
  "fneg (Fin a) = Fin (- a)"
| "fneg PInf = NInf"
| "fneg NInf = PInf"
| "fneg NaN = NaN"

fun fadd :: "jsnum \<Rightarrow> jsnum \<Rightarrow> jsnum" where
  "fadd NaN _ = NaN"
| "fadd _ NaN = NaN"
| "fadd (Fin a) (Fin b) = rnd (a + b)"
| "fadd PInf NInf = NaN"
| "fadd NInf PInf = NaN"
| "fadd PInf _ = PInf"
| "fadd NInf _ = NInf"
| "fadd _ PInf = PInf"
| "fadd _ NInf = NInf"

definition fsub :: "jsnum \<Rightarrow> jsnum \<Rightarrow> jsnum" where
  "fsub a b = fadd a (fneg b)"

fun fsgn :: "jsnum \<Rightarrow> int" where
  \<comment> \<open>the sign of a number that is not NaN; zero counts as positive zero\<close>
  "fsgn (Fin a) = (if a < 0 then - 1 else if a = 0 then 0 else 1)"
| "fsgn PInf = 1"
| "fsgn NInf = - 1"
| "fsgn NaN = 0"

definition inf_of_sign :: "int \<Rightarrow> jsnum" where
  "inf_of_sign s = (if s < 0 then NInf else PInf)"

fun fmul :: "jsnum \<Rightarrow> jsnum \<Rightarrow> jsnum" where
  "fmul NaN _ = NaN"
| "fmul _ NaN = NaN"
| "fmul (Fin a) (Fin b) = rnd (a * b)"
| "fmul x y = (if fsgn x = 0 \<or> fsgn y = 0 then NaN else inf_of_sign (fsgn x * fsgn y))"

fun fdiv :: "jsnum \<Rightarrow> jsnum \<Rightarrow> jsnum" where
  "fdiv NaN _ = NaN"
| "fdiv _ NaN = NaN"
| "fdiv (Fin a) (Fin b) =
     (if b = 0 then (if a = 0 then NaN else inf_of_sign (fsgn (Fin a))) else rnd (a / b))"
| "fdiv (Fin a) _ = Fin 0"
| "fdiv x (Fin b) = inf_of_sign (if b < 0 then - fsgn x else fsgn x)"
| "fdiv _ _ = NaN"

fun flt :: "jsnum \<Rightarrow> jsnum \<Rightarrow> bool" where
  \<comment> \<open>the operator \<open><\<close>: false as soon as one side is NaN\<close>
  "flt NaN _ = False"
| "flt _ NaN = False"
| "flt (Fin a) (Fin b) = (a < b)"
| "flt NInf NInf = False"
| "flt NInf _ = True"
| "flt _ NInf = False"
| "flt PInf _ = False"
| "flt _ PInf = True"

definition fgt :: "jsnum \<Rightarrow> jsnum \<Rightarrow> bool" where
  "fgt a b = flt b a"

definition strict_eq :: "jsnum \<Rightarrow> jsnum \<Rightarrow> bool" where
  \<comment> \<open>the operator \<open>===\<close> on numbers: NaN equals nothing\<close>
  "strict_eq a b = (a \<noteq> NaN \<and> a = b)"

definition truthy :: "jsnum \<Rightarrow> bool" where
  \<comment> \<open>a number is falsy when it is zero or NaN\<close>
  "truthy a = (a \<noteq> NaN \<and> a \<noteq> Fin 0)"

section \<open>Strings\<close>

text \<open>
  A string is a list of 8-bit characters. \<open>is_space\<close> is the white space of both the
  regular expression class \<open>\s\<close> and of \<open>String.prototype.trim\<close> (the two sets agree in
  JavaScript) among these characters; \<open>toUpperCase\<close> changes the ASCII letters, the only ones
  whose upper case can be one of K, M, B.
\<close>

definition is_space :: "char \<Rightarrow> bool" where
  "is_space c = (of_char c \<in> {9, 10, 11, 12, 13, 32, 160 :: nat})"

definition is_digit :: "char \<Rightarrow> bool" where
  "is_digit c = (48 \<le> (of_char c :: nat) \<and> (of_char c :: nat) \<le> 57)"

definition digit_val :: "char \<Rightarrow> int" where
  "digit_val c = of_char c - 48"

definition digits_val :: "string \<Rightarrow> int" where
  "digits_val ds = foldl (\<lambda>n c. 10 * n + digit_val c) 0 ds"

definition toUpperCase :: "string \<Rightarrow> string" where
  "toUpperCase s = map (\<lambda>c. if 97 \<le> (of_char c :: nat) \<and> (of_char c :: nat) \<le> 122
                            then char_of (of_char c - 32 :: nat) else c) s"

definition trim :: "string \<Rightarrow> string" where
  "trim s = rev (dropWhile is_space (rev (dropWhile is_space s)))"

definition endsWith :: "string \<Rightarrow> string \<Rightarrow> bool" where
  "endsWith s suffix = (length suffix \<le> length s \<and> drop (length s - length suffix) s = suffix)"

definition slice_to :: "string \<Rightarrow> nat \<Rightarrow> string" where
  \<comment> \<open>\<open>s.slice(0, -n)\<close>: all but the last \<open>n\<close> characters\<close>
  "slice_to s n = take (length s - n) s"

definition slice_last :: "string \<Rightarrow> string" where
  \<comment> \<open>\<open>s.slice(-1)\<close>: the last character, or the empty string\<close>
  "slice_last s = drop (length s - 1) s"

subsection \<open>parseFloat\<close>

text \<open>
  \<open>parseFloat\<close> skips leading white space and reads the longest prefix that is a decimal
  literal: an optional sign, then \<open>Infinity\<close> or digits with an optional fraction and an
  optional exponent. No such prefix gives NaN. The value is the literal's, rounded.
\<close>

definition exponent_part :: "string \<Rightarrow> int" where
  "exponent_part s = (case s of
       [] \<Rightarrow> 0
     | c # r \<Rightarrow>
        if c = CHR ''e'' \<or> c = CHR ''E'' then
          (case r of
             [] \<Rightarrow> 0
           | d # r' \<Rightarrow>
              if d = CHR ''-'' then - digits_val (takeWhile is_digit r')
              else if d = CHR ''+'' then digits_val (takeWhile is_digit r')
              else digits_val (takeWhile is_digit r))
        else 0)"

fun split_sign :: "string \<Rightarrow> bool \<times> string" where
  "split_sign [] = (False, [])"
| "split_sign (c # r) = (if c = CHR ''-'' then (True, r)
                         else if c = CHR ''+'' then (False, r)
                         else (False, c # r))"

definition span_digits :: "string \<Rightarrow> string \<times> string" where
  "span_digits s = (takeWhile is_digit s, dropWhile is_digit s)"

fun fraction_part :: "string \<Rightarrow> string \<times> string" where
  "fraction_part [] = ([], [])"
| "fraction_part (c # r) = (if c = CHR ''.'' then span_digits r else ([], c # r))"

definition decimal_value :: "bool \<Rightarrow> string \<Rightarrow> string \<Rightarrow> string \<Rightarrow> jsnum" where
  \<comment> \<open>the value of sign, integer digits, fraction digits and what follows them\<close>
  "decimal_value neg ip fp rest =
     (if ip = [] \<and> fp = [] then NaN
      else rnd ((if neg then - 1 else 1) * rat_of_int (digits_val (ip @ fp)) / 10 ^ length fp
                * (10 powi exponent_part rest)))"

definition parse_unsigned :: "bool \<Rightarrow> string \<Rightarrow> jsnum" where
  "parse_unsigned neg s =
     (if take 8 s = ''Infinity'' then (if neg then NInf else PInf)
      else case span_digits s of (ip, s3) \<Rightarrow>
             (case fraction_part s3 of (fp, s4) \<Rightarrow> decimal_value neg ip fp s4))"

definition parseFloat :: "string \<Rightarrow> jsnum" where
  "parseFloat s = (case split_sign (dropWhile is_space s) of (neg, s2) \<Rightarrow> parse_unsigned neg s2)"

section \<open>The currency parser\<close>

definition multipliers :: "string \<Rightarrow> jsnum option" where
  "multipliers k = (if k = ''K'' then Some (Fin 1000)
                    else if k = ''M'' then Some (Fin 1000000)
                    else if k = ''B'' then Some (Fin 1000000000)
                    else None)"

definition strip_currency :: "string \<Rightarrow> string" where
  \<comment> \<open>\<open>value.replace(/[$,\s]/g, '')\<close>\<close>
  "strip_currency v = filter (\<lambda>c. \<not> (c = CHR ''$'' \<or> c = CHR '','' \<or> is_space c)) v"

definition parseCurrencyAmount :: "string \<Rightarrow> jsnum" where
  \<comment> \<open>the scraper service's parser\<close>
  "parseCurrencyAmount v =
    (if v = [] then Fin 0
     else
       let cleaned = strip_currency v in
       if endsWith (toUpperCase cleaned) ''MM''
       then fmul (parseFloat (slice_to cleaned 2)) (Fin 1000000)
       else
         let lastChar = toUpperCase (slice_last cleaned) in
         case multipliers lastChar of
           Some m \<Rightarrow> (if truthy m then fmul (parseFloat (slice_to cleaned 1)) m
                      else (let x = parseFloat cleaned in if truthy x then x else Fin 0))
         | None \<Rightarrow> (let x = parseFloat cleaned in if truthy x then x else Fin 0))"

definition parseCurrency :: "string \<Rightarrow> jsnum" where
  \<comment> \<open>the selector test script's copy of the parser\<close>
  "parseCurrency v =
    (if v = [] then Fin 0
     else
       let cleaned = strip_currency v in
       if endsWith (toUpperCase cleaned) ''MM''
       then fmul (parseFloat (slice_to cleaned 2)) (Fin 1000000)
       else
         let lastChar = toUpperCase (slice_last cleaned) in
         case multipliers lastChar of
           Some m \<Rightarrow> (if truthy m then fmul (parseFloat (slice_to cleaned 1)) m
                      else (let x = parseFloat cleaned in if truthy x then x else Fin 0))
         | None \<Rightarrow> (let x = parseFloat cleaned in if truthy x then x else Fin 0))"

section \<open>Printing and reading integers\<close>

text \<open>
  \<open>show_nat\<close> is the decimal text a template literal or \<open>toString\<close> gives an integer;
  \<open>parseInt\<close> (called without a radix) skips leading white space, reads a sign, takes
  base 16 after a \<open>0x\<close> prefix and base 10 otherwise, and reads the longest prefix of
  digits of that base: none gives NaN.
\<close>

function show_digits :: "int \<Rightarrow> string" where
  "show_digits n = (if n < 10 then [char_of (48 + n)]
                    else show_digits (n div 10) @ [char_of (48 + n mod 10)])"
  by pat_completeness auto
termination
  by (relation "measure nat") auto

declare show_digits.simps [simp del]

definition show_int :: "int \<Rightarrow> string" where
  "show_int i = (if i < 0 then CHR ''-'' # show_digits (- i) else show_digits i)"

definition show_nat :: "nat \<Rightarrow> string" where
  "show_nat n = show_digits (int n)"

definition hex_digit_val :: "char \<Rightarrow> int option" where
  "hex_digit_val c =
     (let n = (of_char c :: int) in
      if 48 \<le> n \<and> n \<le> 57 then Some (n - 48)
      else if 97 \<le> n \<and> n \<le> 102 then Some (n - 87)
      else if 65 \<le> n \<and> n \<le> 70 then Some (n - 55)
      else None)"

definition hex_val :: "string \<Rightarrow> int" where
  "hex_val ds = foldl (\<lambda>n c. 16 * n + the (hex_digit_val c)) 0 ds"

definition has_hex_prefix :: "string \<Rightarrow> bool" where
  "has_hex_prefix s = (take 2 s = ''0x'' \<or> take 2 s = ''0X'')"

definition parse_radix_digits :: "bool \<Rightarrow> string \<Rightarrow> jsnum" where
  "parse_radix_digits neg s =
     (if has_hex_prefix s
      then (case takeWhile (\<lambda>c. hex_digit_val c \<noteq> None) (drop 2 s) of
              [] \<Rightarrow> NaN
            | d # ds \<Rightarrow> rnd (rat_of_int ((if neg then - 1 else 1) * hex_val (d # ds))))
      else (case takeWhile is_digit s of
              [] \<Rightarrow> NaN
            | d # ds \<Rightarrow> rnd (rat_of_int ((if neg then - 1 else 1) * digits_val (d # ds)))))"

definition parseInt :: "string \<Rightarrow> jsnum" where
  "parseInt s = (case split_sign (dropWhile is_space s) of (neg, s2) \<Rightarrow> parse_radix_digits neg s2)"


section \<open>Dates\<close>

text \<open>
  A \<open>Date\<close> is kept by its local calendar fields and the milliseconds since local
  midnight. The functions of the date library that the forecast calculator uses are
  written out on these fields (local time without daylight-saving shifts).
\<close>

record date =
  getFullYear :: int
  getMonth :: int
  getDate :: int
  time_of_day :: int

definition new_Date :: "int \<Rightarrow> int \<Rightarrow> int \<Rightarrow> date" where
  \<comment> \<open>\<open>new Date(year, monthIndex, day)\<close>; a year from 0 to 99 counts from 1900\<close>
  "new_Date y m d = \<lparr>getFullYear = (if 0 \<le> y \<and> y \<le> 99 then 1900 + y else y),
                      getMonth = m, getDate = d, time_of_day = 0\<rparr>"

definition is_leap :: "int \<Rightarrow> bool" where
  "is_leap y = ((y mod 4 = 0 \<and> y mod 100 \<noteq> 0) \<or> y mod 400 = 0)"

definition days_before_month :: "int \<Rightarrow> int \<Rightarrow> int" where
  "days_before_month y m =
     [0, 31, 59, 90, 120, 151, 181, 212, 243, 273, 304, 334] ! nat (m mod 12)
       + (if 2 \<le> m \<and> is_leap y then 1 else 0)"

definition day_number :: "date \<Rightarrow> int" where
  "day_number d =
     (let y = getFullYear d - 1
      in 365 * y + y div 4 - y div 100 + y div 400
         + days_before_month (getFullYear d) (getMonth d) + getDate d - 1)"

definition compareAsc :: "date \<Rightarrow> date \<Rightarrow> int" where
  "compareAsc a b =
     (if day_number a < day_number b then - 1 else if day_number b < day_number a then 1
      else if time_of_day a < time_of_day b then - 1 else if time_of_day b < time_of_day a then 1
      else 0)"

definition isBefore :: "date \<Rightarrow> date \<Rightarrow> bool" where
  "isBefore a b = (compareAsc a b < 0)"

definition differenceInDays :: "date \<Rightarrow> date \<Rightarrow> int" where
  \<comment> \<open>the number of full days between two dates, signed\<close>
  "differenceInDays a b =
     (let sign = compareAsc a b;
          difference = \<bar>day_number a - day_number b\<bar>;
          rest = (if time_of_day a < time_of_day b then - 1
                  else if time_of_day b < time_of_day a then 1 else (0::int));
          isLastDayNotFull = (if rest = - sign then 1 else 0)
      in sign * (difference - isLastDayNotFull))"

definition startOfYear :: "date \<Rightarrow> date" where
  "startOfYear d = d\<lparr>getMonth := 0, getDate := 1, time_of_day := 0\<rparr>"

definition endOfYear :: "date \<Rightarrow> date" where
  "endOfYear d = d\<lparr>getMonth := 11, getDate := 31, time_of_day := 86399999\<rparr>"

subsection \<open>The fiscal calendar of the forecast calculator\<close>

text \<open>
  The optional \<open>fiscalYear\<close> argument is an \<open>int option\<close>; \<open>fiscalYear || getFiscalYear()\<close>
  falls back to the year of the clock when the argument is missing or 0. The extra
  first argument \<open>clock\<close> is the date that \<open>new Date()\<close> gives such a default.
\<close>

definition getFiscalYear :: "date \<Rightarrow> int" where
  "getFiscalYear d = getFullYear d"

definition year_or_default :: "date \<Rightarrow> int option \<Rightarrow> int" where
  "year_or_default clock fiscalYear =
     (case fiscalYear of None \<Rightarrow> getFiscalYear clock
      | Some y \<Rightarrow> if y = 0 then getFiscalYear clock else y)"

definition getFiscalYearStart :: "date \<Rightarrow> int option \<Rightarrow> date" where
  "getFiscalYearStart clock fiscalYear = startOfYear (new_Date (year_or_default clock fiscalYear) 0 1)"

definition getFiscalYearEnd :: "date \<Rightarrow> int option \<Rightarrow> date" where
  "getFiscalYearEnd clock fiscalYear = endOfYear (new_Date (year_or_default clock fiscalYear) 11 31)"

definition getDaysInFiscalYear :: "date \<Rightarrow> int option \<Rightarrow> int" where
  "getDaysInFiscalYear clock fiscalYear =
     differenceInDays (getFiscalYearEnd clock fiscalYear) (getFiscalYearStart clock fiscalYear) + 1"

definition getDaysElapsed :: "date \<Rightarrow> date \<Rightarrow> int option \<Rightarrow> int" where
  "getDaysElapsed clock d fiscalYear =
     (let start = getFiscalYearStart clock fiscalYear
      in if isBefore d start then 0 else differenceInDays d start + 1)"

section \<open>The forecast calculator\<close>

record MonthlyBurnRate =
  month :: string
  monthName :: string
  totalSpend :: jsnum
  daysInMonth :: int
  dailyBurnRate :: jsnum

datatype ForecastResult = ForecastResult
  (fr_fleetId: string)
  (fr_fleetName: string)
  (fr_budget: jsnum)
  (fr_ytdSpend: jsnum)
  (fr_avgDailyBurnRate: jsnum)
  (fr_monthlyBurnRates: "MonthlyBurnRate list")
  (fr_forecastedEOYSpend: jsnum)
  (fr_variance: jsnum)
  (fr_variancePercentage: jsnum)
  (fr_isOverBudget: bool)
  (fr_fiscalYearStart: date)
  (fr_fiscalYearEnd: date)
  (fr_daysInFiscalYear: int)
  (fr_daysElapsed: int)
  (fr_subFleets: "ForecastResult list option")

definition calculateAverageDailyBurnRate :: "date \<Rightarrow> jsnum \<Rightarrow> date \<Rightarrow> jsnum" where
  "calculateAverageDailyBurnRate clock ytdSpend currentDate =
     (let fiscalYear = getFiscalYear currentDate;
          daysElapsed = getDaysElapsed clock currentDate (Some fiscalYear)
      in if daysElapsed = 0 then Fin 0 else fdiv ytdSpend (Fin (rat_of_int daysElapsed)))"

definition forecastEOYSpend :: "date \<Rightarrow> jsnum \<Rightarrow> jsnum \<Rightarrow> date \<Rightarrow> jsnum" where
  "forecastEOYSpend clock ytdSpend burnRate currentDate =
     (if strict_eq burnRate (Fin 0) then ytdSpend
      else
        let fiscalYear = getFiscalYear currentDate;
            totalDaysInYear = getDaysInFiscalYear clock (Some fiscalYear)
        in fmul burnRate (Fin (rat_of_int totalDaysInYear)))"

record BudgetVariance =
  bv_variance :: jsnum
  bv_variancePercentage :: jsnum
  bv_isOverBudget :: bool

definition calculateBudgetVariance :: "jsnum \<Rightarrow> jsnum \<Rightarrow> BudgetVariance" where
  "calculateBudgetVariance budget forecastedEOYSpend =
     (let variance = fsub forecastedEOYSpend budget;
          variancePercentage =
            (if fgt budget (Fin 0) then fmul (fdiv variance budget) (Fin 100) else Fin 0);
          isOverBudget = fgt variance (Fin 0)
      in \<lparr>bv_variance = variance, bv_variancePercentage = variancePercentage,
          bv_isOverBudget = isOverBudget\<rparr>)"

text \<open>
  The monthly burn rates of a fleet and its sub-fleets are merged in a \<open>Map\<close> keyed by
  month, which keeps the order of first insertion, and then sorted by month. The month
  keys have the form \<open>YYYY-MM\<close>, on which \<open>localeCompare\<close> is the order of the
  character codes.
\<close>

fun map_set_month :: "MonthlyBurnRate list \<Rightarrow> MonthlyBurnRate \<Rightarrow> MonthlyBurnRate list" where
  "map_set_month [] mbr = [mbr]"
| "map_set_month (existing # rest) mbr =
     (if month existing = month mbr
      then existing\<lparr>totalSpend := fadd (totalSpend existing) (totalSpend mbr),
                    dailyBurnRate := fadd (dailyBurnRate existing) (dailyBurnRate mbr)\<rparr> # rest
      else existing # map_set_month rest mbr)"

fun string_less :: "string \<Rightarrow> string \<Rightarrow> bool" where
  "string_less [] [] = False"
| "string_less [] (b # bs) = True"
| "string_less (a # as) [] = False"
| "string_less (a # as) (b # bs) =
     ((of_char a :: nat) < of_char b \<or> (a = b \<and> string_less as bs))"

fun insert_by_month :: "MonthlyBurnRate \<Rightarrow> MonthlyBurnRate list \<Rightarrow> MonthlyBurnRate list" where
  "insert_by_month x [] = [x]"
| "insert_by_month x (y # ys) =
     (if string_less (month x) (month y) then x # y # ys else y # insert_by_month x ys)"

definition sort_by_month :: "MonthlyBurnRate list \<Rightarrow> MonthlyBurnRate list" where
  "sort_by_month xs = foldl (\<lambda>sorted x. insert_by_month x sorted) [] xs"

definition aggregateFleetData ::
    "date \<Rightarrow> date \<Rightarrow> date \<Rightarrow> ForecastResult \<Rightarrow> ForecastResult list \<Rightarrow> ForecastResult" where
  \<comment> \<open>\<open>now1\<close> and \<open>now2\<close> are the two \<open>new Date()\<close> of the recalculation\<close>
  "aggregateFleetData clock now1 now2 mainFleet subFleets =
     (if subFleets = [] then
        ForecastResult (fr_fleetId mainFleet) (fr_fleetName mainFleet) (fr_budget mainFleet)
          (fr_ytdSpend mainFleet) (fr_avgDailyBurnRate mainFleet) (fr_monthlyBurnRates mainFleet)
          (fr_forecastedEOYSpend mainFleet) (fr_variance mainFleet)
          (fr_variancePercentage mainFleet) (fr_isOverBudget mainFleet)
          (fr_fiscalYearStart mainFleet) (fr_fiscalYearEnd mainFleet)
          (fr_daysInFiscalYear mainFleet) (fr_daysElapsed mainFleet) (Some [])
      else
        let totalBudget =
              fadd (fr_budget mainFleet) (foldl (\<lambda>sum sf. fadd sum (fr_budget sf)) (Fin 0) subFleets);
            totalYTDSpend =
              fadd (fr_ytdSpend mainFleet) (foldl (\<lambda>sum sf. fadd sum (fr_ytdSpend sf)) (Fin 0) subFleets);
            avgDailyBurnRate = calculateAverageDailyBurnRate clock totalYTDSpend now1;
            forecastedEOYSpend = forecastEOYSpend clock totalYTDSpend avgDailyBurnRate now2;
            bv = calculateBudgetVariance totalBudget forecastedEOYSpend;
            monthlyBurnRates =
              sort_by_month
                (foldl (\<lambda>m fleet. foldl map_set_month m (fr_monthlyBurnRates fleet)) []
                   (mainFleet # subFleets))
        in ForecastResult (fr_fleetId mainFleet) (fr_fleetName mainFleet) totalBudget
             totalYTDSpend avgDailyBurnRate monthlyBurnRates forecastedEOYSpend (bv_variance bv)
             (bv_variancePercentage bv) (bv_isOverBudget bv)
             (fr_fiscalYearStart mainFleet) (fr_fiscalYearEnd mainFleet)
             (fr_daysInFiscalYear mainFleet) (fr_daysElapsed mainFleet) (Some subFleets))"


section \<open>The scraper service\<close>

text \<open>
  An exception is an \<open>Error\<close> with its message. An asynchronous function that can reject
  returns \<open>error + 'a\<close>. What the program does to the outside is recorded as a list of events.
\<close>

datatype error = Error string

definition message :: "error \<Rightarrow> string" where
  "message e = (case e of Error m \<Rightarrow> m)"

definition and_then :: "error + 'a \<Rightarrow> ('a \<Rightarrow> error + 'b) \<Rightarrow> error + 'b" where
  "and_then r f = (case r of Inl e \<Rightarrow> Inl e | Inr v \<Rightarrow> f v)"

definition rethrow :: "string \<Rightarrow> error + 'a \<Rightarrow> error + 'a" where
  \<comment> \<open>\<open>catch (error) { throw new Error(prefix + error.message) }\<close>\<close>
  "rethrow prefix r = (case r of Inl e \<Rightarrow> Inl (Error (prefix @ message e)) | Inr v \<Rightarrow> Inr v)"

datatype event =
    LoginCheck
  | ManualLoginPrompt
  | TimestampSaved string
  | Warning string
  | PageClosed

datatype query_result = Found | NotFound | QueryThrows error

record dom =
  period_buttons :: "string list"
  key_children :: "string list"
  right_cells :: "string list"
  strongs :: "string list"

text \<open>
  The \<open>world\<close> of one call: what the browser, the remote dashboard, the clock and the file
  system answer. \<open>render\<close> gives the elements of the fleet page after the period buttons
  clicked so far; each list holds the \<open>textContent\<close> of the elements a selector finds.
\<close>

record world =
  launch :: "error option"
  now_read :: int
  now_write :: int
  write_fails :: bool
  login_goto :: "error option"
  login_query :: "string \<Rightarrow> query_result"
  fleet_goto :: "error option"
  render :: "string list \<Rightarrow> dom"
  today :: date
  today_months :: date

record disk =
  timestampFile :: "string option"

subsection \<open>The login check\<close>

definition cerberusIndicators :: "string list" where
  \<open>cerberusIndicators =
     [''button[data-class-name="mus-period-selector_button"]'',
      ''[data-testid="mus-overview-fleetid"]'',
      ''.awsui-key-children'',
      ''strong'']\<close>

definition loginIndicators :: "string list" where
  \<open>loginIndicators =
     [''input[type="password"]'', ''input[name="username"]'', ''input[name="email"]'',
      ''.login-form'', ''#login'']\<close>

fun find_cerberus :: "(string \<Rightarrow> query_result) \<Rightarrow> string list \<Rightarrow> bool" where
  \<comment> \<open>the first loop: a query that throws is skipped\<close>
  "find_cerberus q [] = False"
| "find_cerberus q (selector # rest) =
     (case q selector of Found \<Rightarrow> True
      | NotFound \<Rightarrow> find_cerberus q rest
      | QueryThrows e \<Rightarrow> find_cerberus q rest)"

fun find_login :: "(string \<Rightarrow> query_result) \<Rightarrow> string list \<Rightarrow> error + bool" where
  \<comment> \<open>the second loop: a query that throws leaves the loop\<close>
  "find_login q [] = Inr False"
| "find_login q (selector # rest) =
     (case q selector of Found \<Rightarrow> Inr True
      | NotFound \<Rightarrow> find_login q rest
      | QueryThrows e \<Rightarrow> Inl e)"

definition isLoggedIn_try :: "world \<Rightarrow> error + bool" where
  \<comment> \<open>the body of the \<open>try\<close> block\<close>
  "isLoggedIn_try w =
     (case login_goto w of
        Some e \<Rightarrow> Inl e
      | None \<Rightarrow>
          if find_cerberus (login_query w) cerberusIndicators then Inr True
          else and_then (find_login (login_query w) loginIndicators) (\<lambda>found. Inr False))"

definition isLoggedIn :: "world \<Rightarrow> error + bool" where
  \<comment> \<open>\<open>catch (error) { return false }\<close>\<close>
  "isLoggedIn w = (case isLoggedIn_try w of Inl e \<Rightarrow> Inr False | Inr b \<Rightarrow> Inr b)"

subsection \<open>The session store\<close>

definition SESSION_VALIDITY_HOURS :: jsnum where
  "SESSION_VALIDITY_HOURS = Fin 12"

definition hoursSinceValidation :: "int \<Rightarrow> string \<Rightarrow> jsnum" where
  "hoursSinceValidation now content =
     fdiv (fsub (Fin (rat_of_int now)) (parseInt content)) (Fin (1000 * 60 * 60))"

definition session_is_recent :: "world \<Rightarrow> disk \<Rightarrow> bool" where
  \<comment> \<open>the first \<open>try\<close> block: a missing or unreadable file goes on to the login check\<close>
  "session_is_recent w d =
     (case timestampFile d of
        None \<Rightarrow> False
      | Some content \<Rightarrow> flt (hoursSinceValidation (now_read w) content) SESSION_VALIDITY_HOURS)"

definition save_timestamp :: "world \<Rightarrow> disk \<Rightarrow> disk \<times> event list" where
  "save_timestamp w d =
     (if write_fails w then (d, [Warning ''Could not save session timestamp''])
      else (d\<lparr>timestampFile := Some (show_int (now_write w))\<rparr>,
            [TimestampSaved (show_int (now_write w))]))"

definition ensureAuthenticated :: "world \<Rightarrow> disk \<Rightarrow> (error + unit) \<times> disk \<times> event list" where
  "ensureAuthenticated w d =
     (if session_is_recent w d then (Inr (), d, [])
      else
        case isLoggedIn w of
          Inl e \<Rightarrow> (Inl e, d, [LoginCheck])
        | Inr loggedIn \<Rightarrow>
            if loggedIn
            then (case save_timestamp w d of (d', evs) \<Rightarrow> (Inr (), d', LoginCheck # evs))
            else (case save_timestamp w d of
                    (d', evs) \<Rightarrow> (Inr (), d', LoginCheck # ManualLoginPrompt # evs)))"

definition login_checks :: "event list \<Rightarrow> nat" where
  "login_checks evs = length (filter (\<lambda>e. e = LoginCheck) evs)"

subsection \<open>The two period views\<close>

fun click_matching :: "string list \<Rightarrow> string \<Rightarrow> bool" where
  "click_matching [] periodText = False"
| "click_matching (b # bs) periodText = (if trim b = periodText then True else click_matching bs periodText)"

fun join_comma :: "string list \<Rightarrow> string" where
  "join_comma [] = []"
| "join_comma [x] = x"
| "join_comma (x # y # ys) = x @ '','' @ join_comma (y # ys)"

definition selectPeriodByText :: "dom \<Rightarrow> string \<Rightarrow> error + unit" where
  \<open>selectPeriodByText page periodText =
     rethrow (''Failed to select period "'' @ periodText @ ''": '')
       (if period_buttons page = [] then Inl (Error ''No period selector buttons found'')
        else if \<not> click_matching (period_buttons page) periodText
        then Inl (Error (''Period button "'' @ periodText @ ''" not found. Available buttons: ''
                          @ join_comma (map trim (period_buttons page))))
        else Inr ())\<close>

definition imrGoalIndex :: nat where
  "imrGoalIndex = 1"

definition ytdSpendIndex :: nat where
  "ytdSpendIndex = 1"

definition extractIMRGoal :: "string list \<Rightarrow> error + jsnum" where
  \<open>extractIMRGoal budgetElements =
     rethrow ''Failed to extract IMR Goal: ''
       (if length budgetElements < 2
        then Inl (Error (''Expected at least 2 .awsui-key-children elements, found ''
                          @ show_nat (length budgetElements)))
        else
          let imrGoalText = trim (budgetElements ! imrGoalIndex) in
          if imrGoalText = [] then Inl (Error ''IMR Goal text is empty'')
          else
            let imrGoal = parseCurrencyAmount imrGoalText in
            if strict_eq imrGoal (Fin 0)
            then Inl (Error (''Failed to parse IMR Goal from text: "'' @ imrGoalText @ ''"''))
            else Inr imrGoal)\<close>

definition extractYTDSpend :: "string list \<Rightarrow> error + jsnum \<times> event list" where
  \<open>extractYTDSpend spendElements =
     rethrow ''Failed to extract YTD Spend: ''
       (if length spendElements < 2
        then Inl (Error (''Expected at least 2 .mus-cell-right-aligned elements, found ''
                          @ show_nat (length spendElements)))
        else
          let ytdSpendText = trim (spendElements ! ytdSpendIndex) in
          if ytdSpendText = [] then Inl (Error ''YTD Spend text is empty'')
          else
            let ytdSpend = parseCurrencyAmount ytdSpendText in
            Inr (ytdSpend,
                 if strict_eq ytdSpend (Fin 0)
                 then [Warning (''YTD Spend is $0 (raw: "'' @ ytdSpendText @ ''") - verify this is correct'')]
                 else []))\<close>

subsection \<open>The metrics\<close>

definition calculateMonthsElapsed :: "date \<Rightarrow> int \<Rightarrow> int" where
  \<comment> \<open>the first argument is the \<open>new Date()\<close> read inside the function\<close>
  "calculateMonthsElapsed now fiscalYear =
     (let currentMonth = getMonth now + 1;
          reportingMonth = currentMonth - 1
      in if reportingMonth = 0 then 12 else reportingMonth)"

record CerebusCompleteData =
  fleetId :: string
  fleetName :: string
  fiscalYear :: int
  imrGoal :: jsnum
  ytdSpend :: jsnum
  ytdPeriodEnd :: date
  monthsElapsed :: int
  monthsRemaining :: int
  monthlyBurnRate :: jsnum
  projectedEOY :: jsnum
  variance :: jsnum
  variancePercent :: jsnum
  percentComplete :: jsnum
  isOverBudget :: bool

definition calculate_metrics ::
    "world \<Rightarrow> string \<Rightarrow> string \<Rightarrow> jsnum \<Rightarrow> jsnum \<Rightarrow> CerebusCompleteData" where
  \<comment> \<open>the block CALCULATE METRICS of \<open>scrapeCerebusComplete\<close>\<close>
  "calculate_metrics w fleet_id fleet_name imr_goal ytd_spend =
     (let currentYear = getFullYear (today w);
          fiscal_year = currentYear;
          months_elapsed = calculateMonthsElapsed (today_months w) fiscal_year;
          months_remaining = 12 - months_elapsed;
          monthly_burn_rate = fdiv ytd_spend (Fin (rat_of_int months_elapsed));
          projected_eoy = fmul monthly_burn_rate (Fin 12);
          variance_value = fsub imr_goal projected_eoy;
          variance_percent = fmul (fdiv variance_value imr_goal) (Fin 100);
          percent_complete = fmul (fdiv ytd_spend imr_goal) (Fin 100);
          is_over_budget = fgt projected_eoy imr_goal
      in \<lparr>fleetId = fleet_id, fleetName = fleet_name, fiscalYear = fiscal_year,
          imrGoal = imr_goal, ytdSpend = ytd_spend, ytdPeriodEnd = today w,
          monthsElapsed = months_elapsed, monthsRemaining = months_remaining,
          monthlyBurnRate = monthly_burn_rate, projectedEOY = projected_eoy,
          variance = variance_value, variancePercent = variance_percent,
          percentComplete = percent_complete, isOverBudget = is_over_budget\<rparr>)"

subsection \<open>One fleet\<close>

definition extract_fleet :: "world \<Rightarrow> string \<Rightarrow> error + CerebusCompleteData \<times> event list" where
  \<comment> \<open>the \<open>try\<close> block of \<open>scrapeCerebusComplete\<close> after the page has loaded\<close>
  "extract_fleet w fleet_id =
     and_then (selectPeriodByText (render w []) ''Full Year'') (\<lambda>u.
       case render w [''Full Year''] of fullYear \<Rightarrow>
       and_then (extractIMRGoal (key_children fullYear)) (\<lambda>imr_goal.
         case (case strongs fullYear of [] \<Rightarrow> ''Fleet '' @ fleet_id | el # els \<Rightarrow> trim el) of
           fleet_name \<Rightarrow>
         and_then (selectPeriodByText fullYear ''Year to Date'') (\<lambda>u.
           and_then (extractYTDSpend (right_cells (render w [''Full Year'', ''Year to Date''])))
             (\<lambda>(ytd_spend, warnings).
                Inr (calculate_metrics w fleet_id fleet_name imr_goal ytd_spend, warnings)))))"

definition scrapeCerebusComplete ::
    "world \<Rightarrow> string \<Rightarrow> disk \<Rightarrow> (error + CerebusCompleteData) \<times> disk \<times> event list" where
  "scrapeCerebusComplete w fleet_id d =
     (case launch w of
        Some e \<Rightarrow> (Inl e, d, [])
      | None \<Rightarrow>
          (case ensureAuthenticated w d of
             (Inl e, d', evs) \<Rightarrow> (Inl e, d', evs @ [PageClosed])
           | (Inr u, d', evs) \<Rightarrow>
               (case fleet_goto w of
                  Some e \<Rightarrow> (Inl e, d', evs @ [PageClosed])
                | None \<Rightarrow>
                    (case extract_fleet w fleet_id of
                       Inl e \<Rightarrow> (Inl e, d', evs @ [PageClosed])
                     | Inr (data, warnings) \<Rightarrow> (Inr data, d', evs @ warnings @ [PageClosed])))))"

section \<open>The batch run\<close>

text \<open>
  The test script loads the scraper inside the \<open>try\<close> block of its loop, so the scraper
  is an argument here: given a fleet id and the state of the outside, it returns the data
  or throws, and leaves a new state. An entry of \<open>results\<close> is the pushed object without
  its \<open>duration\<close>.
\<close>

datatype entry =
    Passed string string jsnum jsnum jsnum jsnum bool
  | Failed string string

fun entry_fleetId :: "entry \<Rightarrow> string" where
  "entry_fleetId (Passed fid name goal spend eoy var over) = fid"
| "entry_fleetId (Failed fid msg) = fid"

fun success :: "entry \<Rightarrow> bool" where
  "success (Passed fid name goal spend eoy var over) = True"
| "success (Failed fid msg) = False"

definition entry_of :: "string \<Rightarrow> error + CerebusCompleteData \<Rightarrow> entry" where
  "entry_of fid r =
     (case r of
        Inr data \<Rightarrow> Passed fid (fleetName data) (imrGoal data) (ytdSpend data)
                      (projectedEOY data) (variance data) (isOverBudget data)
      | Inl e \<Rightarrow> Failed fid (message e))"

record 's batch_state =
  results :: "entry list"
  delays :: nat
  outside :: 's

function batch_loop ::
    "(string \<Rightarrow> 's \<Rightarrow> (error + CerebusCompleteData) \<times> 's) \<Rightarrow> string list \<Rightarrow> nat
      \<Rightarrow> 's batch_state \<Rightarrow> 's batch_state" where
  "batch_loop scrape FLEET_IDS i st =
     (if i < length FLEET_IDS then
        (case scrape (FLEET_IDS ! i) (outside st) of
           (r, s') \<Rightarrow>
             batch_loop scrape FLEET_IDS (i + 1)
               \<lparr>results = results st @ [entry_of (FLEET_IDS ! i) r],
                delays = (if int i < int (length FLEET_IDS) - 1 then delays st + 1 else delays st),
                outside = s'\<rparr>)
      else st)"
  by pat_completeness auto
termination
  by (relation "measure (\<lambda>(scrape, ids, i, st). length ids - i)") auto

declare batch_loop.simps [simp del]

definition testCerebusScraping ::
    "(string \<Rightarrow> 's \<Rightarrow> (error + CerebusCompleteData) \<times> 's) \<Rightarrow> string list \<Rightarrow> 's
      \<Rightarrow> 's batch_state \<times> int" where
  \<comment> \<open>the final state of the loop and the exit status of the process\<close>
  "testCerebusScraping scrape FLEET_IDS s =
     (let st = batch_loop scrape FLEET_IDS 0 \<lparr>results = [], delays = 0, outside = s\<rparr>;
          failCount = length (filter (\<lambda>r. \<not> success r) (results st))
      in (st, if 0 < failCount then 1 else 0))"


text \<open>
  The results of the loop, fleet by fleet: the list the loop builds, by recursion on the
  fleet ids. The proofs about the loop go through it.
\<close>

fun run_fleets ::
    "(string \<Rightarrow> 's \<Rightarrow> (error + CerebusCompleteData) \<times> 's) \<Rightarrow> string list \<Rightarrow> 's \<Rightarrow> entry list \<times> 's" where
  "run_fleets scrape [] s = ([], s)"
| "run_fleets scrape (fid # fids) s =
     (case scrape fid s of (r, s') \<Rightarrow>
        (case run_fleets scrape fids s' of (es, s'') \<Rightarrow> (entry_of fid r # es, s'')))"

section \<open>An example of the outside\<close>

text \<open>
  A run in January 2026 on a logged-in browser: the dashboard shows the budget \<open>$2.36MM\<close>
  in the Full Year view and the spend \<open>$150.9K\<close> in the Year to Date view.
\<close>

definition january_world :: world where
  "january_world =
     \<lparr>launch = None, now_read = 1767686400000, now_write = 1767686401000, write_fails = False,
      login_goto = None, login_query = (\<lambda>selector. Found), fleet_goto = None,
      render = (\<lambda>clicks. \<lparr>period_buttons = [''Full Year'', ''Year to Date''],
                             key_children = [''$1.2MM'', ''$2.36MM''],
                             right_cells = [''Total'', ''$150.9K''],
                             strongs = [''(F6) Planning Automation And Optimization'']\<rparr>),
      today = \<lparr>getFullYear = 2026, getMonth = 0, getDate = 6, time_of_day = 32400000\<rparr>,
      today_months = \<lparr>getFullYear = 2026, getMonth = 0, getDate = 6, time_of_day = 32400000\<rparr>\<rparr>"

text \<open>The same run with the network down during the login check.\<close>

definition offline_world :: world where
  "offline_world = january_world\<lparr>login_goto := Some (Error ''net::ERR_INTERNET_DISCONNECTED'')\<rparr>"

text \<open>A second run one hour later.\<close>

definition later_world :: world where
  "later_world = january_world\<lparr>now_read := 1767690001000, now_write := 1767690002000\<rparr>"

text \<open>
  A batch of three fleets: the dashboard of the second one has no \<open>Full Year\<close> button.
\<close>

definition no_button_world :: world where
  "no_button_world =
     january_world\<lparr>render := (\<lambda>clicks. \<lparr>period_buttons = [''Month'', ''Year to Date''],
                                             key_children = [''$1.2MM'', ''$2.36MM''],
                                             right_cells = [''Total'', ''$150.9K''],
                                             strongs = [''(F7) Other'']\<rparr>)\<rparr>"

definition example_scrape :: "string \<Rightarrow> disk \<Rightarrow> (error + CerebusCompleteData) \<times> disk" where
  "example_scrape fid d =
     (case scrapeCerebusComplete (if fid = ''8305082'' then no_button_world else january_world) fid d of
        (r, d', evs) \<Rightarrow> (r, d'))"

definition example_fleets :: "string list" where
  "example_fleets = [''8304669'', ''8305082'', ''8304674'']"

text \<open>A fleet and one sub-fleet, aggregated on 6 February 2026.\<close>

definition example_date :: date where
  "example_date = \<lparr>getFullYear = 2026, getMonth = 1, getDate = 6, time_of_day = 32400000\<rparr>"

definition example_main :: ForecastResult where
  "example_main = ForecastResult ''8304669'' ''F6'' (Fin 2360000) (Fin 150900) (Fin 25150) []
     (Fin 1000000) (Fin (- 1360000)) (Fin (- 57)) False
     (new_Date 2026 0 1) (new_Date 2026 11 31) 365 6 None"

definition example_sub :: ForecastResult where
  "example_sub = ForecastResult ''8305082'' ''F7'' (Fin 812900) (Fin 65400) (Fin 10900) []
     (Fin 500000) (Fin (- 312900)) (Fin (- 38)) False
     (new_Date 2026 0 1) (new_Date 2026 11 31) 365 6 None"

section \<open>Properties of the rounding\<close>

text \<open>
  A number \<open>m * 2 powi k\<close> with a significand below \<open>2 ^ 53\<close> and an exponent in range is
  a double: rounding leaves it unchanged (\<open>rnd_exact\<close>). Rounding never crosses a double
  (\<open>rnd_upper\<close>), and keeps the sign (\<open>rnd_nonpos\<close>).
\<close>

lemma ilog2_lower:
  assumes "q \<noteq> 0"
  shows "(2::rat) powi ilog2 q \<le> \<bar>q\<bar>"
proof -
  obtain n d where nd: "quotient_of \<bar>q\<bar> = (n, d)" by (cases "quotient_of \<bar>q\<bar>")
  have dpos: "0 < d" using quotient_of_denom_pos[OF nd] .
  have q: "\<bar>q\<bar> = of_int n / of_int d" using quotient_of_div[OF nd] .
  have npos: "0 < n"
  proof -
    have "0 < \<bar>q\<bar>" using assms by simp
    then have "0 < (of_int n :: rat) / of_int d" using q by simp
    then show ?thesis using dpos by (simp add: zero_less_divide_iff)
  qed
  define k where "k = bitlen n - bitlen d"
  show ?thesis
  proof (cases "2 powi k \<le> \<bar>q\<bar>")
    case True
    then show ?thesis by (simp add: ilog2_def nd k_def)
  next
    case False
    then have il: "ilog2 q = k - 1" by (simp add: ilog2_def nd k_def)
    have n_lo: "2 ^ nat (bitlen n - 1) \<le> n" using bitlen_bounds[OF npos] ..
    have d_hi: "d < 2 ^ nat (bitlen d)" using bitlen_bounds[OF dpos] ..
    have bn: "1 \<le> bitlen n" using npos bitlen_eq_zero_iff[of n] bitlen_nonneg[of n] by linarith
    have bd: "1 \<le> bitlen d" using dpos bitlen_eq_zero_iff[of d] bitlen_nonneg[of d] by linarith
    have "(2::rat) powi (k - 1) = 2 powi (bitlen n - 1) / 2 powi (bitlen d)"
      by (simp add: k_def power_int_diff)
    also have "\<dots> = 2 ^ nat (bitlen n - 1) / 2 ^ nat (bitlen d)"
      using bn bd by (simp add: power_int_def)
    also have "\<dots> \<le> of_int n / of_int d"
    proof (rule frac_le)
      show "(0::rat) \<le> of_int n" using npos by simp
      have "(of_int (2 ^ nat (bitlen n - 1)) :: rat) \<le> of_int n" using n_lo by (simp only: of_int_le_iff)
      then show "(2::rat) ^ nat (bitlen n - 1) \<le> of_int n" by simp
      show "(0::rat) < of_int d" using dpos by simp
      have "(of_int d :: rat) \<le> of_int (2 ^ nat (bitlen d))" using d_hi by (simp only: of_int_le_iff)
      then show "(of_int d :: rat) \<le> 2 ^ nat (bitlen d)" by simp
    qed
    finally show ?thesis using il q by simp
  qed
qed

lemma ilog2_zero: "ilog2 0 = - 2"
  by code_simp

lemma round_half_even_of_int: "round_half_even (of_int n) = n"
  by (simp add: round_half_even_def)

lemma round_half_even_le:
  assumes "x \<le> of_int K"
  shows "round_half_even x \<le> K"
proof -
  have f: "\<lfloor>x\<rfloor> \<le> K" using assms by (simp add: floor_le_iff)
  show ?thesis
  proof (cases "x = of_int \<lfloor>x\<rfloor>")
    case True
    then have "round_half_even x = \<lfloor>x\<rfloor>" by (simp add: round_half_even_def)
    then show ?thesis using f by simp
  next
    case False
    then have "of_int \<lfloor>x\<rfloor> < x" using of_int_floor_le[of x] by linarith
    then have "(of_int \<lfloor>x\<rfloor> :: rat) < of_int K" using assms by linarith
    then have "\<lfloor>x\<rfloor> < K" by (simp only: of_int_less_iff)
    then show ?thesis by (auto simp: round_half_even_def Let_def)
  qed
qed

lemma round_half_even_ge:
  assumes "of_int K \<le> x"
  shows "K \<le> round_half_even x"
proof -
  have "K \<le> \<lfloor>x\<rfloor>" using assms by (simp add: le_floor_iff)
  then show ?thesis by (auto simp: round_half_even_def Let_def)
qed

lemma ilog2_less:
  assumes "q \<noteq> 0" and "\<bar>q\<bar> < 2 powi b"
  shows "ilog2 q < b"
proof (rule ccontr)
  assume "\<not> ilog2 q < b"
  then have "b \<le> ilog2 q" by simp
  then have "(2::rat) powi b \<le> 2 powi ilog2 q" by (intro power_int_increasing) simp_all
  with ilog2_lower[OF assms(1)] assms(2) show False by linarith
qed

lemma ulp_exp_le:
  assumes "q \<noteq> 0" and "\<bar>q\<bar> < 2 powi (53 + k)" and "- 1074 \<le> k"
  shows "ulp_exp q \<le> k"
  using ilog2_less[OF assms(1,2)] assms(3) by (simp add: ulp_exp_def)

lemma on_grid:
  assumes "e \<le> k"
  shows "(of_int m * 2 powi k) / (2 powi e) = (of_int (m * 2 ^ nat (k - e)) :: rat)"
proof -
  have "(2::rat) powi k / 2 powi e = 2 powi (k - e)" by (simp add: power_int_diff)
  also have "\<dots> = 2 ^ nat (k - e)" using assms by (simp add: power_int_def)
  finally have eq: "(2::rat) powi k / 2 powi e = 2 ^ nat (k - e)" .
  have "(of_int m * 2 powi k) / (2 powi e) = of_int m * ((2::rat) powi k / 2 powi e)"
    by (simp only: times_divide_eq_right)
  also have "\<dots> = of_int m * 2 ^ nat (k - e)" by (simp only: eq)
  also have "\<dots> = of_int (m * 2 ^ nat (k - e))" by simp
  finally show ?thesis .
qed

lemma abs_grid_less:
  assumes "\<bar>m\<bar> < 2 ^ 53"
  shows "\<bar>(of_int m :: rat) * 2 powi k\<bar> < 2 powi (53 + k)"
proof -
  have "(of_int \<bar>m\<bar> :: rat) < of_int (2 ^ 53)" using assms by (simp only: of_int_less_iff)
  then have "\<bar>of_int m :: rat\<bar> < 2 powi 53" by simp
  moreover have "(0::rat) < 2 powi k" by simp
  ultimately have "\<bar>of_int m :: rat\<bar> * 2 powi k < 2 powi 53 * 2 powi k"
    by (rule mult_strict_right_mono)
  then show ?thesis by (simp add: abs_mult power_int_add)
qed

lemma rnd_exact:
  assumes "\<bar>m\<bar> < 2 ^ 53" and "- 1074 \<le> k" and "k \<le> 971"
  shows "rnd (of_int m * 2 powi k) = Fin (of_int m * 2 powi k)"
proof (cases "m = 0")
  case True
  then show ?thesis by (simp add: rnd_def)
next
  case False
  define c :: rat where "c = of_int m * 2 powi k"
  have c0: "c \<noteq> 0" using False by (simp add: c_def)
  have cb: "\<bar>c\<bar> < 2 powi (53 + k)" unfolding c_def by (rule abs_grid_less[OF assms(1)])
  have e: "ulp_exp c \<le> k" by (rule ulp_exp_le[OF c0 cb assms(2)])
  have g: "c / 2 powi ulp_exp c = of_int (m * 2 ^ nat (k - ulp_exp c))"
    using on_grid[OF e, of m] by (simp only: c_def)
  have "of_int (round_half_even (c / 2 powi ulp_exp c)) * 2 powi ulp_exp c
          = c / 2 powi ulp_exp c * 2 powi ulp_exp c"
    by (simp only: g round_half_even_of_int)
  also have "\<dots> = c" by simp
  finally have r: "of_int (round_half_even (c / 2 powi ulp_exp c)) * 2 powi ulp_exp c = c" .
  have "\<bar>c\<bar> < 2 powi 1024"
  proof -
    have "(2::rat) powi (53 + k) \<le> 2 powi 1024" using assms(3) by (intro power_int_increasing) simp_all
    with cb show ?thesis by linarith
  qed
  then have "ilog2 c < 1024" by (rule ilog2_less[OF c0])
  then show ?thesis using c0 r by (simp add: rnd_def Let_def c_def[symmetric])
qed

lemma rnd_upper:
  assumes "0 < q" and "q \<le> of_int m * 2 powi k" and "\<bar>m\<bar> < 2 ^ 53"
    and "- 1074 \<le> k" and "k \<le> 971"
  shows "\<exists>r. rnd q = Fin r \<and> 0 \<le> r \<and> r \<le> of_int m * 2 powi k"
proof -
  define c :: rat where "c = of_int m * 2 powi k"
  define e where "e = ulp_exp q"
  define r :: rat where "r = of_int (round_half_even (q / 2 powi e)) * 2 powi e"
  have q0: "q \<noteq> 0" using assms(1) by simp
  have cb: "\<bar>c\<bar> < 2 powi (53 + k)" unfolding c_def by (rule abs_grid_less[OF assms(3)])
  have qc: "q \<le> c" using assms(2) by (simp add: c_def)
  have qb: "\<bar>q\<bar> < 2 powi (53 + k)" using assms(1) qc cb by linarith
  have ek: "e \<le> k" unfolding e_def by (rule ulp_exp_le[OF q0 qb assms(4)])
  have cg: "c / 2 powi e = of_int (m * 2 ^ nat (k - e))" unfolding c_def by (rule on_grid[OF ek])
  have "q / 2 powi e \<le> c / 2 powi e" using qc by (simp add: divide_right_mono)
  then have "round_half_even (q / 2 powi e) \<le> m * 2 ^ nat (k - e)"
    unfolding cg by (rule round_half_even_le)
  then have "(of_int (round_half_even (q / 2 powi e)) :: rat) \<le> of_int (m * 2 ^ nat (k - e))"
    by (simp only: of_int_le_iff)
  then have "r \<le> c / 2 powi e * 2 powi e" unfolding r_def cg
    by (intro mult_right_mono) simp_all
  then have rc: "r \<le> c" by simp
  have "(of_int 0 :: rat) \<le> q / 2 powi e" using assms(1) by simp
  then have "0 \<le> round_half_even (q / 2 powi e)" by (rule round_half_even_ge)
  then have r0: "0 \<le> r" by (simp add: r_def)
  have "ilog2 r < 1024"
  proof (cases "r = 0")
    case True
    then show ?thesis by (simp add: ilog2_zero)
  next
    case False
    have "(2::rat) powi (53 + k) \<le> 2 powi 1024" using assms(5) by (intro power_int_increasing) simp_all
    then have "\<bar>r\<bar> < 2 powi 1024" using r0 rc cb by linarith
    then show ?thesis by (rule ilog2_less[OF False])
  qed
  then have "rnd q = Fin r" using q0 by (simp add: rnd_def Let_def r_def e_def)
  then show ?thesis using r0 rc by (auto simp: c_def)
qed

lemma rnd_nonpos:
  assumes "q \<le> 0"
  shows "rnd q = NInf \<or> (\<exists>r. rnd q = Fin r \<and> r \<le> 0)"
proof (cases "q = 0")
  case True
  then show ?thesis by (simp add: rnd_def)
next
  case False
  define e where "e = ulp_exp q"
  define r :: rat where "r = of_int (round_half_even (q / 2 powi e)) * 2 powi e"
  have "q / 2 powi e \<le> of_int 0" using assms by (simp add: divide_le_0_iff)
  then have "round_half_even (q / 2 powi e) \<le> 0" by (rule round_half_even_le)
  then have "r \<le> 0" by (simp add: r_def mult_le_0_iff)
  then show ?thesis using False by (auto simp: rnd_def Let_def r_def e_def)
qed

section \<open>Results about the currency parser\<close>

lemma parseCurrencyAmount_millions: "parseCurrencyAmount ''$2.36MM'' = Fin 2360000"
  by code_simp

lemma parseCurrencyAmount_thousands: "parseCurrencyAmount ''$150.9K'' = Fin 150900"
  by code_simp

lemma parseCurrencyAmount_billions: "parseCurrencyAmount ''$1.2B'' = Fin 1200000000"
  by code_simp

lemma parseCurrencyAmount_dash: "parseCurrencyAmount ''-'' = Fin 0"
  by code_simp

lemma parseCurrencyAmount_na: "parseCurrencyAmount ''N/A'' = Fin 0"
  by code_simp

lemma parseCurrencyAmount_empty: "parseCurrencyAmount '''' = Fin 0"
  by (simp add: parseCurrencyAmount_def)

lemma parseCurrency_eq: "parseCurrency v = parseCurrencyAmount v"
  by (simp add: parseCurrency_def parseCurrencyAmount_def)

text \<open>
  C3. The parser maps \<open>$2.36MM\<close> to 2360000, \<open>$150.9K\<close> to 150900, \<open>$1.2B\<close> to
  1200000000, and each of \<open>-\<close>, \<open>N/A\<close> and the empty string to 0; the suffix \<open>MM\<close> is
  tried before the one-letter suffixes. Both copies of the parser agree. The products
  are those of double arithmetic: each is exact after rounding.
\<close>

theorem parseCurrency_examples:
  "parseCurrencyAmount ''$2.36MM'' = Fin 2360000 \<and>
   parseCurrencyAmount ''$150.9K'' = Fin 150900 \<and>
   parseCurrencyAmount ''$1.2B'' = Fin 1200000000 \<and>
   parseCurrencyAmount ''-'' = Fin 0 \<and>
   parseCurrencyAmount ''N/A'' = Fin 0 \<and>
   parseCurrencyAmount '''' = Fin 0 \<and>
   parseCurrency ''$2.36MM'' = Fin 2360000 \<and>
   parseCurrency ''$150.9K'' = Fin 150900 \<and>
   parseCurrency ''$1.2B'' = Fin 1200000000 \<and>
   parseCurrency ''-'' = Fin 0 \<and>
   parseCurrency ''N/A'' = Fin 0 \<and>
   parseCurrency '''' = Fin 0"
  by (simp only: parseCurrency_eq parseCurrencyAmount_millions parseCurrencyAmount_thousands
      parseCurrencyAmount_billions parseCurrencyAmount_dash parseCurrencyAmount_na
      parseCurrencyAmount_empty simp_thms)


text \<open>
  C4. A remainder that is not a number must give 0. It does on the path without a
  suffix (\<open>parseFloat(cleaned) || 0\<close>), but the two suffix paths multiply the NaN of
  \<open>parseFloat\<close> by the multiplier and return NaN.
\<close>

lemma parseCurrencyAmount_K_nan: "parseCurrencyAmount ''$abcK'' = NaN"
  by code_simp

lemma parseCurrencyAmount_MM_nan: "parseCurrencyAmount ''$abcMM'' = NaN"
  by code_simp

lemma parseCurrencyAmount_plain_zero: "parseCurrencyAmount ''$abc'' = Fin 0"
  by code_simp

theorem parseCurrencyAmount_suffix_gives_NaN:
  "parseCurrencyAmount ''$abcK'' = NaN \<and> parseCurrencyAmount ''$abcMM'' = NaN \<and>
   parseCurrencyAmount ''$abc'' = Fin 0"
  by (simp only: parseCurrencyAmount_K_nan parseCurrencyAmount_MM_nan
      parseCurrencyAmount_plain_zero simp_thms)

section \<open>Results about the months elapsed\<close>

text \<open>
  C2. For every date, whose month index \<open>getMonth\<close> is from 0 to 11, the months elapsed
  are the calendar month minus one from February to December and 12 in January: always
  an integer from 1 to 12.
\<close>

theorem calculateMonthsElapsed_range:
  assumes "0 \<le> getMonth now" and "getMonth now \<le> 11"
  shows "(getMonth now + 1 = 1 \<longrightarrow> calculateMonthsElapsed now fy = 12) \<and>
         (2 \<le> getMonth now + 1 \<longrightarrow> calculateMonthsElapsed now fy = (getMonth now + 1) - 1) \<and>
         1 \<le> calculateMonthsElapsed now fy \<and> calculateMonthsElapsed now fy \<le> 12"
  using assms by (auto simp: calculateMonthsElapsed_def Let_def)

text \<open>The months elapsed on 6 January and on 6 November.\<close>

theorem calculateMonthsElapsed_range_witness:
  "calculateMonthsElapsed \<lparr>getFullYear = 2026, getMonth = 0, getDate = 6, time_of_day = 0\<rparr> 2026 = 12 \<and>
   calculateMonthsElapsed \<lparr>getFullYear = 2026, getMonth = 10, getDate = 6, time_of_day = 0\<rparr> 2026 = 10"
  using calculateMonthsElapsed_range[of "\<lparr>getFullYear = 2026, getMonth = 0, getDate = 6, time_of_day = 0\<rparr>" 2026]
    calculateMonthsElapsed_range[of "\<lparr>getFullYear = 2026, getMonth = 10, getDate = 6, time_of_day = 0\<rparr>" 2026]
  by simp

section \<open>Results about the variance\<close>

text \<open>
  The forecast engine takes the variance as forecast minus budget and calls a fleet over
  budget when the variance is positive; the scraper takes budget minus projection, and
  compares the projection with the budget.
\<close>

lemma calculateBudgetVariance_convention:
  "bv_variance (calculateBudgetVariance budget forecast) = fsub forecast budget \<and>
   bv_isOverBudget (calculateBudgetVariance budget forecast)
     = fgt (bv_variance (calculateBudgetVariance budget forecast)) (Fin 0)"
  by (simp add: calculateBudgetVariance_def Let_def)

lemma calculate_metrics_convention:
  "variance (calculate_metrics w f n g y) = fsub g (projectedEOY (calculate_metrics w f n g y)) \<and>
   isOverBudget (calculate_metrics w f n g y) = fgt (projectedEOY (calculate_metrics w f n g y)) g"
  by (simp add: calculate_metrics_def Let_def)

lemma scrape_january:
  "fst (scrapeCerebusComplete january_world ''8304669'' \<lparr>timestampFile = None\<rparr>) =
     Inr (calculate_metrics january_world ''8304669'' ''(F6) Planning Automation And Optimization''
            (Fin 2360000) (Fin 150900))"
  by code_simp

lemma january_variance:
  "variance (calculate_metrics january_world f n (Fin 2360000) (Fin 150900)) = Fin 2209100"
  by code_simp

lemma january_isOverBudget:
  "isOverBudget (calculate_metrics january_world f n (Fin 2360000) (Fin 150900)) = False"
  by code_simp

lemma engine_variance:
  "bv_variance (calculateBudgetVariance (Fin 2360000) (Fin 150900)) = Fin (- 2209100)"
  by code_simp

lemma january_projectedEOY:
  "projectedEOY (calculate_metrics january_world f n (Fin 2360000) (Fin 150900)) = Fin 150900"
  by code_simp

lemma january_imrGoal: "imrGoal (calculate_metrics w f n g y) = g"
  by (simp add: calculate_metrics_def Let_def)

text \<open>
  C1. The variance is to be \<open>projectedEOY - imrGoal\<close> at both places. In the example run
  the scraper returns the budget 2360000, the projection 150900 and the variance
  +2209100 for a fleet that is not over budget, where the forecast engine gives -2209100.
\<close>

theorem scraper_variance_has_opposite_sign:
  "(\<exists>data. fst (scrapeCerebusComplete january_world ''8304669'' \<lparr>timestampFile = None\<rparr>) = Inr data
      \<and> imrGoal data = Fin 2360000 \<and> projectedEOY data = Fin 150900
      \<and> variance data = Fin 2209100 \<and> \<not> isOverBudget data)
   \<and> bv_variance (calculateBudgetVariance (Fin 2360000) (Fin 150900)) = Fin (- 2209100)"
proof (intro conjI exI)
  show "fst (scrapeCerebusComplete january_world ''8304669'' \<lparr>timestampFile = None\<rparr>) =
     Inr (calculate_metrics january_world ''8304669'' ''(F6) Planning Automation And Optimization''
            (Fin 2360000) (Fin 150900))"
    by (rule scrape_january)
qed (simp_all only: january_imrGoal january_projectedEOY january_variance january_isOverBudget
      engine_variance simp_thms)

section \<open>Results about the projection after twelve months\<close>

lemma parse_6543K: "parseCurrencyAmount ''$65.43K'' = Fin (8992630725672961 / 137438953472)"
  by code_simp

lemma projected_6543K:
  "fmul (fdiv (Fin (8992630725672961 / 137438953472)) (Fin 12)) (Fin 12)
     = Fin (4496315362836481 / 68719476736)"
  by code_simp

text \<open>
  C5. After twelve months the projection is to equal the spend exactly; the repository's
  notes on the fiscal year say so too (at month 12 the projection is the actual spend, no
  projection needed). The scraper does not return the spend: it divides by 12 and
  multiplies by 12 in doubles. With the spend 150900 of the example run the result is exact
  (\<open>january_projectedEOY\<close>). With the spend text \<open>$65.43K\<close> the parsed spend is
  65430.00000000001, its twelfth is rounded, and twelve times the twelfth is the next
  double, 65430.000000000015.
\<close>

theorem projectedEOY_differs_from_ytdSpend:
  "monthsElapsed (calculate_metrics january_world ''8304669'' ''F6'' (Fin 2360000)
                    (parseCurrencyAmount ''$65.43K'')) = 12 \<and>
   projectedEOY (calculate_metrics january_world ''8304669'' ''F6'' (Fin 2360000)
                    (parseCurrencyAmount ''$65.43K''))
     \<noteq> ytdSpend (calculate_metrics january_world ''8304669'' ''F6'' (Fin 2360000)
                    (parseCurrencyAmount ''$65.43K''))"
  by (simp add: calculate_metrics_def Let_def january_world_def calculateMonthsElapsed_def
      parse_6543K projected_6543K del: fmul.simps fdiv.simps)

section \<open>Results about zero amounts\<close>

text \<open>
  Trimming a text changes nothing for the parser, which removes all white space itself.
\<close>

lemma filter_dropWhile_disjoint:
  "(\<And>x. Q x \<Longrightarrow> \<not> P x) \<Longrightarrow> filter P (dropWhile Q xs) = filter P xs"
  by (induction xs) auto

lemma strip_currency_trim: "strip_currency (trim s) = strip_currency s"
proof -
  let ?P = "\<lambda>c. \<not> (c = CHR ''$'' \<or> c = CHR '','' \<or> is_space c)"
  have d: "filter ?P (dropWhile is_space xs) = filter ?P xs" for xs
    by (rule filter_dropWhile_disjoint) simp
  have "filter ?P (trim s) = rev (filter ?P (dropWhile is_space (rev (dropWhile is_space s))))"
    by (simp only: trim_def rev_filter)
  also have "\<dots> = rev (filter ?P (rev (dropWhile is_space s)))" by (simp only: d)
  also have "\<dots> = filter ?P (dropWhile is_space s)" by (simp only: rev_filter rev_rev_ident)
  also have "\<dots> = filter ?P s" by (simp only: d)
  finally show ?thesis by (simp only: strip_currency_def)
qed

lemma parseFloat_empty: "parseFloat [] = NaN"
  by code_simp

lemma parseCurrencyAmount_blank:
  "strip_currency v = [] \<Longrightarrow> parseCurrencyAmount v = Fin 0"
  by (simp add: parseCurrencyAmount_def endsWith_def toUpperCase_def slice_last_def multipliers_def
      parseFloat_empty truthy_def)

lemma strip_currency_Nil: "strip_currency [] = []"
  by (simp add: strip_currency_def)

lemma parseCurrencyAmount_trim: "parseCurrencyAmount (trim t) = parseCurrencyAmount t"
proof (cases "trim t = []")
  case True
  then have "strip_currency t = []" using strip_currency_trim[of t] by (simp add: strip_currency_Nil)
  then show ?thesis using True by (simp add: parseCurrencyAmount_blank strip_currency_Nil)
next
  case False
  then have "t \<noteq> []" by (auto simp: trim_def)
  then show ?thesis using False
    by (simp add: parseCurrencyAmount_def strip_currency_trim)
qed

lemma empty_spend_text: "extractYTDSpend [''Total'', ''''] =
    Inl (Error ''Failed to extract YTD Spend: YTD Spend text is empty'')"
  by code_simp

text \<open>
  C10, as stated: a spend text that parses to 0 gives the spend 0 with a warning. The
  empty text parses to 0, but \<open>extractYTDSpend\<close> throws on it before it parses.
\<close>

theorem empty_spend_text_is_fatal:
  "parseCurrencyAmount '''' = Fin 0 \<and>
   extractYTDSpend [''Total'', ''''] =
     Inl (Error ''Failed to extract YTD Spend: YTD Spend text is empty'')"
  by (simp only: parseCurrencyAmount_empty empty_spend_text simp_thms)

text \<open>
  C10, amended: when the second element's text parses to 0, \<open>extractIMRGoal\<close> throws;
  \<open>extractYTDSpend\<close> returns 0 with one warning when the text is not empty after
  trimming, and throws when it is.
\<close>

theorem zero_is_fatal_for_budget_not_for_spend:
  assumes "2 \<le> length els" and "parseCurrencyAmount (els ! 1) = Fin 0"
  shows "(\<exists>e. extractIMRGoal els = Inl e) \<and>
         (trim (els ! 1) \<noteq> [] \<longrightarrow> (\<exists>text. extractYTDSpend els = Inr (Fin 0, [Warning text]))) \<and>
         (trim (els ! 1) = [] \<longrightarrow> (\<exists>e. extractYTDSpend els = Inl e))"
proof -
  have z: "parseCurrencyAmount (trim (els ! 1)) = Fin 0"
    using assms(2) by (simp only: parseCurrencyAmount_trim)
  show ?thesis using assms(1) z
    by (simp add: extractIMRGoal_def extractYTDSpend_def rethrow_def imrGoalIndex_def
        ytdSpendIndex_def strict_eq_def Let_def)
qed

text \<open>The texts \<open>-\<close> and a single blank.\<close>

theorem zero_is_fatal_for_budget_not_for_spend_witness:
  "parseCurrencyAmount ([''Total'', ''-''] ! 1) = Fin 0 \<and>
   (\<exists>e. extractIMRGoal [''Total'', ''-''] = Inl e) \<and>
   (\<exists>text. extractYTDSpend [''Total'', ''-''] = Inr (Fin 0, [Warning text])) \<and>
   parseCurrencyAmount ([''Total'', '' ''] ! 1) = Fin 0 \<and>
   (\<exists>e. extractYTDSpend [''Total'', '' ''] = Inl e)"
proof -
  have a: "parseCurrencyAmount ([''Total'', ''-''] ! 1) = Fin 0" by (simp add: parseCurrencyAmount_dash)
  have b: "parseCurrencyAmount ([''Total'', '' ''] ! 1) = Fin 0" by code_simp
  have t1: "trim ([''Total'', ''-''] ! 1) \<noteq> []" by code_simp
  have t2: "trim ([''Total'', '' ''] ! 1) = []" by code_simp
  show ?thesis
    using zero_is_fatal_for_budget_not_for_spend[of "[''Total'', ''-'']", OF _ a]
      zero_is_fatal_for_budget_not_for_spend[of "[''Total'', '' '']", OF _ b] a b t1 t2
    by simp
qed

section \<open>Results about the aggregation\<close>

text \<open>
  C6. With at least one sub-fleet, the budget and the spend of the aggregate are the sums
  over the fleet and its sub-fleets, added in doubles in the order of the code, and the
  forecast is computed again from the summed spend: the forecasts of the parts are not
  read.
\<close>

theorem aggregate_recomputes_from_totals:
  assumes "subFleets \<noteq> []"
  shows "fr_budget (aggregateFleetData clock now1 now2 mainFleet subFleets)
           = fadd (fr_budget mainFleet)
               (foldl (\<lambda>sum sf. fadd sum (fr_budget sf)) (Fin 0) subFleets) \<and>
         fr_ytdSpend (aggregateFleetData clock now1 now2 mainFleet subFleets)
           = fadd (fr_ytdSpend mainFleet)
               (foldl (\<lambda>sum sf. fadd sum (fr_ytdSpend sf)) (Fin 0) subFleets) \<and>
         fr_forecastedEOYSpend (aggregateFleetData clock now1 now2 mainFleet subFleets)
           = forecastEOYSpend clock
               (fr_ytdSpend (aggregateFleetData clock now1 now2 mainFleet subFleets))
               (calculateAverageDailyBurnRate clock
                  (fr_ytdSpend (aggregateFleetData clock now1 now2 mainFleet subFleets)) now1)
               now2"
  using assms by (simp add: aggregateFleetData_def Let_def)

lemma example_total_budget:
  "fadd (fr_budget example_main) (foldl (\<lambda>sum sf. fadd sum (fr_budget sf)) (Fin 0) [example_sub])
     = Fin 3172900"
  by code_simp

lemma example_total_spend:
  "fadd (fr_ytdSpend example_main) (foldl (\<lambda>sum sf. fadd sum (fr_ytdSpend sf)) (Fin 0) [example_sub])
     = Fin 216300"
  by code_simp

lemma example_forecast:
  "forecastEOYSpend example_date (Fin 216300)
     (calculateAverageDailyBurnRate example_date (Fin 216300) example_date) example_date
     = Fin (2291118381996973 / 1073741824)"
  by code_simp

lemma example_sum_of_forecasts:
  "fadd (fr_forecastedEOYSpend example_main) (fr_forecastedEOYSpend example_sub) = Fin 1500000"
  by code_simp

text \<open>
  The example fleet and sub-fleet: the forecast from the totals is about 2133770, the
  sum of the two recorded forecasts is 1500000.
\<close>

theorem aggregate_recomputes_from_totals_witness:
  "fr_budget (aggregateFleetData example_date example_date example_date example_main [example_sub])
     = Fin 3172900 \<and>
   fr_ytdSpend (aggregateFleetData example_date example_date example_date example_main [example_sub])
     = Fin 216300 \<and>
   fr_forecastedEOYSpend (aggregateFleetData example_date example_date example_date example_main [example_sub])
     = Fin (2291118381996973 / 1073741824) \<and>
   fr_forecastedEOYSpend (aggregateFleetData example_date example_date example_date example_main [example_sub])
     \<noteq> fadd (fr_forecastedEOYSpend example_main) (fr_forecastedEOYSpend example_sub)"
proof -
  let ?agg = "aggregateFleetData example_date example_date example_date example_main [example_sub]"
  have ne: "[example_sub] \<noteq> []" by simp
  note t = aggregate_recomputes_from_totals[OF ne, of example_date example_date example_date example_main]
  from t have b: "fr_budget ?agg = Fin 3172900" by (simp only: example_total_budget)
  from t have y: "fr_ytdSpend ?agg = Fin 216300" by (simp only: example_total_spend)
  from t have "fr_forecastedEOYSpend ?agg
      = forecastEOYSpend example_date (fr_ytdSpend ?agg)
          (calculateAverageDailyBurnRate example_date (fr_ytdSpend ?agg) example_date) example_date"
    by blast
  then have f: "fr_forecastedEOYSpend ?agg = Fin (2291118381996973 / 1073741824)"
    by (simp only: y example_forecast)
  show ?thesis using b y f by (simp add: example_sum_of_forecasts)
qed

section \<open>Results about the session store\<close>

text \<open>
  The text of a time stamp reads back as the same number, and the hours since a time stamp
  less than twelve hours old are below 12 in double arithmetic as well.
\<close>

lemma show_int_write: "show_int 1767686401000 = ''1767686401000''"
  by code_simp

lemma digit_chars:
  "\<forall>k \<in> set [0..9]. is_digit (char_of (48 + k)) \<and> digit_val (char_of (48 + k)) = k"
  by code_simp

lemma digit_char:
  assumes "0 \<le> n" and "n < 10"
  shows "is_digit (char_of (48 + n))" and "digit_val (char_of (48 + n)) = n"
proof -
  have "n \<in> set [0..9]" using assms by simp
  then show "is_digit (char_of (48 + n))" and "digit_val (char_of (48 + n)) = n"
    using digit_chars by blast+
qed

lemma digits_val_snoc: "digits_val (ds @ [c]) = 10 * digits_val ds + digit_val c"
  by (simp add: digits_val_def)

lemma show_digits_props:
  "0 \<le> n \<Longrightarrow> show_digits n \<noteq> [] \<and> (\<forall>c \<in> set (show_digits n). is_digit c) \<and>
     digits_val (show_digits n) = n"
proof (induction n rule: show_digits.induct)
  case (1 n)
  show ?case
  proof (cases "n < 10")
    case True
    then show ?thesis using "1.prems" digit_char[of n]
      by (subst (1 2 3) show_digits.simps) (simp add: digits_val_def)
  next
    case False
    then have IH: "show_digits (n div 10) \<noteq> [] \<and> (\<forall>c \<in> set (show_digits (n div 10)). is_digit c) \<and>
       digits_val (show_digits (n div 10)) = n div 10"
      using "1.IH" "1.prems" by simp
    have m: "0 \<le> n mod 10" "n mod 10 < 10" by simp_all
    show ?thesis using False IH digit_char[OF m]
      by (subst (1 2 3) show_digits.simps) (simp add: digits_val_snoc)
  qed
qed

lemma is_digit_not_special:
  assumes "is_digit c"
  shows "\<not> is_space c" and "c \<noteq> CHR ''-''" and "c \<noteq> CHR ''+''" and "c \<noteq> CHR ''x''" and "c \<noteq> CHR ''X''"
  using assms by (auto simp: is_digit_def is_space_def)

lemma parseInt_digits:
  assumes "ds \<noteq> []" and "\<forall>c \<in> set ds. is_digit c"
  shows "parseInt ds = rnd (rat_of_int (digits_val ds))"
proof -
  obtain c cs where ds: "ds = c # cs" using assms(1) by (cases ds) auto
  have c: "is_digit c" using assms(2) ds by simp
  have sp: "dropWhile is_space ds = ds" using is_digit_not_special(1)[OF c] ds by simp
  have sg: "split_sign ds = (False, ds)" using is_digit_not_special(2,3)[OF c] ds by simp
  have hx: "\<not> has_hex_prefix ds"
  proof
    assume "has_hex_prefix ds"
    then have "CHR ''x'' \<in> set (take 2 ds) \<or> CHR ''X'' \<in> set (take 2 ds)"
      by (auto simp: has_hex_prefix_def)
    then have "CHR ''x'' \<in> set ds \<or> CHR ''X'' \<in> set ds" by (meson in_set_takeD)
    then show False using assms(2) is_digit_not_special(4,5) by blast
  qed
  have tw: "takeWhile is_digit ds = ds" using assms(2) by (simp add: takeWhile_eq_all_conv)
  have "parseInt ds = parse_radix_digits False ds"
    by (simp only: parseInt_def sp sg prod.case)
  also have "\<dots> = (case takeWhile is_digit ds of [] \<Rightarrow> NaN
                     | d # r \<Rightarrow> rnd (rat_of_int ((if False then - 1 else 1) * digits_val (d # r))))"
    using hx by (simp only: parse_radix_digits_def if_False)
  also have "\<dots> = (case ds of [] \<Rightarrow> NaN
                     | d # r \<Rightarrow> rnd (rat_of_int ((if False then - 1 else 1) * digits_val (d # r))))"
    by (simp only: tw)
  also have "\<dots> = rnd (rat_of_int (digits_val ds))" by (simp add: ds)
  finally show ?thesis .
qed

lemma rnd_int:
  assumes "\<bar>n\<bar> < 2 ^ 53"
  shows "rnd (rat_of_int n) = Fin (rat_of_int n)"
  using rnd_exact[OF assms, of 0] by simp

lemma parseInt_show_int:
  assumes "0 \<le> t" and "t < 2 ^ 53"
  shows "parseInt (show_int t) = Fin (rat_of_int t)"
proof -
  have "parseInt (show_digits t) = rnd (rat_of_int (digits_val (show_digits t)))"
    using show_digits_props[OF assms(1)] by (intro parseInt_digits) simp_all
  then show ?thesis using assms show_digits_props[OF assms(1)] rnd_int[of t]
    by (simp add: show_int_def)
qed

lemma hours_below_twelve:
  assumes "d < 43200000" and "\<bar>d\<bar> < 2 ^ 53"
  shows "flt (fdiv (Fin (rat_of_int d)) (Fin 3600000)) (Fin 12)"
proof (cases "d \<le> 0")
  case True
  then have "rat_of_int d / 3600000 \<le> 0" by (simp add: divide_le_0_iff)
  from rnd_nonpos[OF this] show ?thesis by auto
next
  case False
  then have pos: "0 < rat_of_int d / 3600000" by simp
  have "d \<le> 43199999" using assms(1) by simp
  then have "rat_of_int d \<le> 43199999" by (metis of_int_le_iff of_int_numeral)
  then have "rat_of_int d / 3600000 \<le> 43199999 / 3600000" by (simp add: divide_right_mono)
  also have "\<dots> \<le> rat_of_int 6755399441055743 * 2 powi (- 49)" by (simp add: power_int_minus)
  finally have le: "rat_of_int d / 3600000 \<le> rat_of_int 6755399441055743 * 2 powi (- 49)" .
  obtain r where r: "rnd (rat_of_int d / 3600000) = Fin r" "r \<le> rat_of_int 6755399441055743 * 2 powi (- 49)"
    using rnd_upper[OF pos le] by auto
  have "rat_of_int 6755399441055743 * 2 powi (- 49) < 12" by (simp add: power_int_minus)
  then have "r < 12" using r(2) by linarith
  then show ?thesis using r(1) by simp
qed

lemma recent_after_write:
  assumes "timestampFile d = Some (show_int t)" and "0 \<le> t" and "t \<le> 8640000000000000"
    and "0 \<le> now_read w" and "now_read w \<le> 8640000000000000"
    and "now_read w - t < 12 * 60 * 60 * 1000"
  shows "session_is_recent w d"
proof -
  have p: "parseInt (show_int t) = Fin (rat_of_int t)" using assms(2,3) by (intro parseInt_show_int) simp_all
  have b: "\<bar>now_read w - t\<bar> < 2 ^ 53" using assms(2-5) by simp
  have "fsub (Fin (rat_of_int (now_read w))) (Fin (rat_of_int t)) = rnd (rat_of_int (now_read w - t))"
    by (simp add: fsub_def)
  also have "\<dots> = Fin (rat_of_int (now_read w - t))" by (rule rnd_int[OF b])
  finally have s: "fsub (Fin (rat_of_int (now_read w))) (Fin (rat_of_int t)) = Fin (rat_of_int (now_read w - t))" .
  have "flt (fdiv (Fin (rat_of_int (now_read w - t))) (Fin 3600000)) (Fin 12)"
    using assms(6) b by (intro hours_below_twelve) simp_all
  then show ?thesis using assms(1)
    by (simp add: session_is_recent_def hoursSinceValidation_def p s SESSION_VALIDITY_HOURS_def
        del: fdiv.simps flt.simps)
qed

lemma login_checks_le_1: "login_checks (snd (snd (ensureAuthenticated w d))) \<le> 1"
  by (cases "isLoggedIn w")
     (auto simp: ensureAuthenticated_def login_checks_def save_timestamp_def isLoggedIn_def
        split: sum.splits)

lemma saved_timestamp:
  assumes "TimestampSaved ts \<in> set (snd (snd (ensureAuthenticated w d)))"
  shows "ts = show_int (now_write w) \<and>
         timestampFile (fst (snd (ensureAuthenticated w d))) = Some (show_int (now_write w))"
  using assms
  by (cases "isLoggedIn w")
     (auto simp: ensureAuthenticated_def save_timestamp_def split: if_splits)

text \<open>
  C7. When a call has written a time stamp, and the next call reads the clock less than
  twelve hours after it (both times in the range of time values), the next call returns
  at once without a login check, and the two calls issue at most one login check.
\<close>

theorem second_call_in_window_issues_no_login_check:
  assumes "TimestampSaved ts \<in> set (snd (snd (ensureAuthenticated w1 d0)))"
    and "0 \<le> now_write w1" and "now_write w1 \<le> 8640000000000000"
    and "0 \<le> now_read w2" and "now_read w2 \<le> 8640000000000000"
    and "now_read w2 - now_write w1 < 12 * 60 * 60 * 1000"
  shows "ensureAuthenticated w2 (fst (snd (ensureAuthenticated w1 d0)))
           = (Inr (), fst (snd (ensureAuthenticated w1 d0)), []) \<and>
         login_checks (snd (snd (ensureAuthenticated w2 (fst (snd (ensureAuthenticated w1 d0)))))) = 0 \<and>
         login_checks (snd (snd (ensureAuthenticated w1 d0)))
           + login_checks (snd (snd (ensureAuthenticated w2 (fst (snd (ensureAuthenticated w1 d0)))))) \<le> 1"
proof -
  let ?d1 = "fst (snd (ensureAuthenticated w1 d0))"
  have f: "timestampFile ?d1 = Some (show_int (now_write w1))"
    using saved_timestamp[OF assms(1)] by simp
  have "session_is_recent w2 ?d1" by (rule recent_after_write[OF f assms(2-6)])
  then have e: "ensureAuthenticated w2 ?d1 = (Inr (), ?d1, [])"
    by (simp add: ensureAuthenticated_def)
  show ?thesis using e login_checks_le_1[of w1 d0] by (simp add: login_checks_def)
qed

lemma first_call_january:
  "ensureAuthenticated january_world \<lparr>timestampFile = None\<rparr> =
     (Inr (), \<lparr>timestampFile = Some ''1767686401000''\<rparr>,
      [LoginCheck, TimestampSaved ''1767686401000''])"
  by (simp add: ensureAuthenticated_def session_is_recent_def january_world_def isLoggedIn_def
      isLoggedIn_try_def cerberusIndicators_def save_timestamp_def show_int_write)

text \<open>The example run and a second run one hour later.\<close>

theorem second_call_in_window_issues_no_login_check_witness:
  "TimestampSaved ''1767686401000''
     \<in> set (snd (snd (ensureAuthenticated january_world \<lparr>timestampFile = None\<rparr>))) \<and>
   now_read later_world - now_write january_world = 3600000 \<and>
   ensureAuthenticated later_world \<lparr>timestampFile = Some ''1767686401000''\<rparr>
     = (Inr (), \<lparr>timestampFile = Some ''1767686401000''\<rparr>, []) \<and>
   login_checks (snd (snd (ensureAuthenticated january_world \<lparr>timestampFile = None\<rparr>)))
     + login_checks (snd (snd (ensureAuthenticated later_world
                                 \<lparr>timestampFile = Some ''1767686401000''\<rparr>))) = 1"
proof -
  let ?d0 = "\<lparr>timestampFile = None\<rparr>"
  have saved: "TimestampSaved ''1767686401000'' \<in> set (snd (snd (ensureAuthenticated january_world ?d0)))"
    by (simp add: first_call_january)
  have d1: "fst (snd (ensureAuthenticated january_world ?d0)) = \<lparr>timestampFile = Some ''1767686401000''\<rparr>"
    by (simp add: first_call_january)
  have t: "now_write january_world = 1767686401000" "now_read later_world = 1767690001000"
    by (simp_all add: january_world_def later_world_def)
  have "ensureAuthenticated later_world (fst (snd (ensureAuthenticated january_world ?d0)))
          = (Inr (), fst (snd (ensureAuthenticated january_world ?d0)), [])"
    using second_call_in_window_issues_no_login_check[OF saved, of later_world] t by simp
  then have second: "ensureAuthenticated later_world \<lparr>timestampFile = Some ''1767686401000''\<rparr>
     = (Inr (), \<lparr>timestampFile = Some ''1767686401000''\<rparr>, [])"
    by (simp only: d1)
  show ?thesis using saved second t by (simp add: first_call_january login_checks_def)
qed

lemma isLoggedIn_never_throws: "\<exists>b. isLoggedIn w = Inr b"
  by (cases "isLoggedIn_try w") (auto simp: isLoggedIn_def)

lemma isLoggedIn_catches: "isLoggedIn_try w = Inl e \<Longrightarrow> isLoggedIn w = Inr False"
  by (simp add: isLoggedIn_def)

text \<open>
  C8, as stated: an error of the login check reaches the caller and no time stamp is
  written. With the network down, \<open>isLoggedIn\<close> catches the error and answers false: the
  operator is asked to log in and the time stamp is written.
\<close>

theorem login_check_error_not_propagated:
  "isLoggedIn_try offline_world = Inl (Error ''net::ERR_INTERNET_DISCONNECTED'') \<and>
   ensureAuthenticated offline_world \<lparr>timestampFile = None\<rparr> =
     (Inr (), \<lparr>timestampFile = Some ''1767686401000''\<rparr>,
      [LoginCheck, ManualLoginPrompt, TimestampSaved ''1767686401000''])"
  by (simp add: offline_world_def january_world_def isLoggedIn_try_def ensureAuthenticated_def
      session_is_recent_def isLoggedIn_def save_timestamp_def show_int_write)

text \<open>
  C8, amended: when the login check fails inside \<open>isLoggedIn\<close> and no recent time stamp
  is stored, \<open>ensureAuthenticated\<close> throws nothing, asks for a manual login and then saves
  a time stamp (unless the file cannot be written).
\<close>

theorem login_check_error_leads_to_manual_login:
  assumes "isLoggedIn_try w = Inl e" and "\<not> session_is_recent w d"
  shows "fst (ensureAuthenticated w d) = Inr () \<and>
         snd (snd (ensureAuthenticated w d)) = LoginCheck # ManualLoginPrompt # snd (save_timestamp w d) \<and>
         fst (snd (ensureAuthenticated w d)) = fst (save_timestamp w d) \<and>
         (\<not> write_fails w \<longrightarrow>
            timestampFile (fst (snd (ensureAuthenticated w d))) = Some (show_int (now_write w)))"
  using assms isLoggedIn_catches[OF assms(1)]
  by (simp add: ensureAuthenticated_def save_timestamp_def split: prod.splits)

text \<open>The run with the network down.\<close>

theorem login_check_error_leads_to_manual_login_witness:
  "isLoggedIn_try offline_world = Inl (Error ''net::ERR_INTERNET_DISCONNECTED'') \<and>
   \<not> session_is_recent offline_world \<lparr>timestampFile = None\<rparr> \<and>
   fst (ensureAuthenticated offline_world \<lparr>timestampFile = None\<rparr>) = Inr () \<and>
   timestampFile (fst (snd (ensureAuthenticated offline_world \<lparr>timestampFile = None\<rparr>)))
     = Some ''1767686401000''"
proof -
  have a: "isLoggedIn_try offline_world = Inl (Error ''net::ERR_INTERNET_DISCONNECTED'')"
    by (simp add: offline_world_def january_world_def isLoggedIn_try_def)
  have b: "\<not> session_is_recent offline_world \<lparr>timestampFile = None\<rparr>"
    by (simp add: session_is_recent_def)
  have c: "\<not> write_fails offline_world" "now_write offline_world = 1767686401000"
    by (simp_all add: offline_world_def january_world_def)
  note t = login_check_error_leads_to_manual_login[OF a b]
  from t have r1: "fst (ensureAuthenticated offline_world \<lparr>timestampFile = None\<rparr>) = Inr ()"
    by (rule conjunct1)
  from t c(1) have "timestampFile (fst (snd (ensureAuthenticated offline_world \<lparr>timestampFile = None\<rparr>)))
      = Some (show_int (now_write offline_world))" by blast
  then have r2: "timestampFile (fst (snd (ensureAuthenticated offline_world \<lparr>timestampFile = None\<rparr>)))
      = Some ''1767686401000''" by (simp only: c(2) show_int_write)
  show ?thesis using a b r1 r2 by (intro conjI)
qed

section \<open>Results about the batch run\<close>

lemma batch_loop_run_fleets:
  "results (batch_loop scrape ids i st) = results st @ fst (run_fleets scrape (drop i ids) (outside st)) \<and>
   outside (batch_loop scrape ids i st) = snd (run_fleets scrape (drop i ids) (outside st))"
proof (induction scrape ids i st rule: batch_loop.induct)
  case (1 scrape ids i st)
  show ?case
  proof (cases "i < length ids")
    case False
    then show ?thesis by (simp add: batch_loop.simps[of scrape ids i st])
  next
    case True
    obtain r s' where sc: "scrape (ids ! i) (outside st) = (r, s')" by (cases "scrape (ids ! i) (outside st)")
    have d: "drop i ids = ids ! i # drop (Suc i) ids" using True by (simp add: Cons_nth_drop_Suc)
    note IH = "1.IH"[OF True sc[symmetric]]
    show ?thesis
      using True sc IH
      by (subst (1 2) batch_loop.simps) (simp add: d split: prod.splits)
  qed
qed

lemma run_fleets_Cons:
  "run_fleets scrape (fid # fids) s =
     (entry_of fid (fst (scrape fid s)) # fst (run_fleets scrape fids (snd (scrape fid s))),
      snd (run_fleets scrape fids (snd (scrape fid s))))"
  by (simp split: prod.splits)

lemma run_fleets_append:
  "run_fleets scrape (xs @ ys) s =
     (fst (run_fleets scrape xs s) @ fst (run_fleets scrape ys (snd (run_fleets scrape xs s))),
      snd (run_fleets scrape ys (snd (run_fleets scrape xs s))))"
  by (induction xs arbitrary: s) (simp_all add: run_fleets_Cons del: run_fleets.simps(2))

lemma run_fleets_ids: "map entry_fleetId (fst (run_fleets scrape ids s)) = ids"
proof (induction ids arbitrary: s)
  case Nil
  show ?case by simp
next
  case (Cons fid fids)
  have e: "entry_fleetId (entry_of fid r) = fid" for r
    by (cases r) (simp_all add: entry_of_def)
  show ?case using Cons by (simp add: e run_fleets_Cons del: run_fleets.simps(2))
qed

lemma run_fleets_length: "length (fst (run_fleets scrape ids s)) = length ids"
  using run_fleets_ids[of scrape ids s] by (metis length_map)

lemma run_fleets_nth:
  assumes "i < length ids"
  shows "fst (run_fleets scrape ids s) ! i
           = entry_of (ids ! i) (fst (scrape (ids ! i) (snd (run_fleets scrape (take i ids) s))))"
proof -
  have ids: "ids = take i ids @ (ids ! i # drop (Suc i) ids)" using assms by (simp add: id_take_nth_drop)
  have len: "length (fst (run_fleets scrape (take i ids) s)) = i"
    using assms by (simp add: run_fleets_length)
  have "fst (run_fleets scrape ids s) ! i
          = fst (run_fleets scrape (take i ids @ (ids ! i # drop (Suc i) ids)) s) ! i"
    using ids by simp
  also have "\<dots> = fst (run_fleets scrape (ids ! i # drop (Suc i) ids) (snd (run_fleets scrape (take i ids) s))) ! 0"
    by (simp add: run_fleets_append nth_append len)
  also have "\<dots> = entry_of (ids ! i) (fst (scrape (ids ! i) (snd (run_fleets scrape (take i ids) s))))"
    by (simp add: run_fleets_Cons del: run_fleets.simps(2))
  finally show ?thesis .
qed

lemma batch_results:
  "results (fst (testCerebusScraping scrape ids s)) = fst (run_fleets scrape ids s)"
  by (simp add: testCerebusScraping_def Let_def batch_loop_run_fleets del: batch_loop.simps)

lemma batch_outside:
  "outside (fst (testCerebusScraping scrape ids s)) = snd (run_fleets scrape ids s)"
  by (simp add: testCerebusScraping_def Let_def batch_loop_run_fleets del: batch_loop.simps)

lemma batch_status:
  "snd (testCerebusScraping scrape ids s) \<noteq> 0
     \<longleftrightarrow> (\<exists>r \<in> set (results (fst (testCerebusScraping scrape ids s))). \<not> success r)"
  by (auto simp: testCerebusScraping_def Let_def filter_empty_conv simp del: batch_loop.simps)

lemma success_entry_of: "success (entry_of fid r) \<longleftrightarrow> (\<exists>data. r = Inr data)"
  by (cases r) (simp_all add: entry_of_def)

text \<open>
  C9. The results hold one entry per fleet id, in the order of the ids; the entry of a
  fleet is made from what the scraper returned or threw for it, in the state the fleets
  before it left, whatever happened to them; and the exit status is not 0 exactly when an
  entry is a failure.
\<close>

theorem batch_one_entry_per_fleet:
  "map entry_fleetId (results (fst (testCerebusScraping scrape ids s))) = ids \<and>
   (\<forall>i < length ids.
      results (fst (testCerebusScraping scrape ids s)) ! i
        = entry_of (ids ! i)
            (fst (scrape (ids ! i) (outside (fst (testCerebusScraping scrape (take i ids) s)))))) \<and>
   (\<forall>i < length ids.
      success (results (fst (testCerebusScraping scrape ids s)) ! i)
        \<longleftrightarrow> (\<exists>data. fst (scrape (ids ! i) (outside (fst (testCerebusScraping scrape (take i ids) s))))
                       = Inr data)) \<and>
   (snd (testCerebusScraping scrape ids s) \<noteq> 0
      \<longleftrightarrow> (\<exists>r \<in> set (results (fst (testCerebusScraping scrape ids s))). \<not> success r))"
proof (intro conjI allI impI)
  show "map entry_fleetId (results (fst (testCerebusScraping scrape ids s))) = ids"
    by (simp only: batch_results run_fleets_ids)
next
  fix i assume "i < length ids"
  then show "results (fst (testCerebusScraping scrape ids s)) ! i
        = entry_of (ids ! i)
            (fst (scrape (ids ! i) (outside (fst (testCerebusScraping scrape (take i ids) s)))))"
    by (simp only: batch_results batch_outside run_fleets_nth)
next
  fix i assume "i < length ids"
  then show "success (results (fst (testCerebusScraping scrape ids s)) ! i)
        \<longleftrightarrow> (\<exists>data. fst (scrape (ids ! i) (outside (fst (testCerebusScraping scrape (take i ids) s))))
                       = Inr data)"
    by (simp only: batch_results batch_outside run_fleets_nth success_entry_of)
next
  show "snd (testCerebusScraping scrape ids s) \<noteq> 0
      \<longleftrightarrow> (\<exists>r \<in> set (results (fst (testCerebusScraping scrape ids s))). \<not> success r)"
    by (rule batch_status)
qed

lemma example_first_fleet:
  "outside (fst (testCerebusScraping example_scrape (take 1 example_fleets) \<lparr>timestampFile = None\<rparr>))
     = \<lparr>timestampFile = Some ''1767686401000''\<rparr>"
  by code_simp

lemma example_second_fleet:
  \<open>fst (example_scrape (example_fleets ! 1) \<lparr>timestampFile = Some ''1767686401000''\<rparr>)
     = Inl (Error ''Failed to select period "Full Year": Period button "Full Year" not found. Available buttons: Month,Year to Date'')\<close>
  by code_simp

text \<open>The batch of three fleets whose second fleet fails.\<close>

theorem batch_one_entry_per_fleet_witness:
  \<open>map entry_fleetId (results (fst (testCerebusScraping example_scrape example_fleets \<lparr>timestampFile = None\<rparr>)))
     = [''8304669'', ''8305082'', ''8304674''] \<and>
   results (fst (testCerebusScraping example_scrape example_fleets \<lparr>timestampFile = None\<rparr>)) ! 1
     = Failed ''8305082''
         ''Failed to select period "Full Year": Period button "Full Year" not found. Available buttons: Month,Year to Date'' \<and>
   snd (testCerebusScraping example_scrape example_fleets \<lparr>timestampFile = None\<rparr>) \<noteq> 0\<close>
proof -
  let ?run = "testCerebusScraping example_scrape example_fleets \<lparr>timestampFile = None\<rparr>"
  note t = batch_one_entry_per_fleet[of example_scrape example_fleets "\<lparr>timestampFile = None\<rparr>"]
  have len: "1 < length example_fleets" by (simp add: example_fleets_def)
  from t have ids: "map entry_fleetId (results (fst ?run)) = example_fleets" by (rule conjunct1)
  from t len have "results (fst ?run) ! 1
      = entry_of (example_fleets ! 1)
          (fst (example_scrape (example_fleets ! 1)
                 (outside (fst (testCerebusScraping example_scrape (take 1 example_fleets)
                                  \<lparr>timestampFile = None\<rparr>)))))"
    by blast
  then have \<open>results (fst ?run) ! 1
      = entry_of (example_fleets ! 1)
          (Inl (Error ''Failed to select period "Full Year": Period button "Full Year" not found. Available buttons: Month,Year to Date''))\<close>
    by (simp only: example_first_fleet example_second_fleet)
  then have second: \<open>results (fst ?run) ! 1 = Failed ''8305082''
         ''Failed to select period "Full Year": Period button "Full Year" not found. Available buttons: Month,Year to Date''\<close>
    by (simp add: entry_of_def message_def example_fleets_def)
  have "length (results (fst ?run)) = length example_fleets" using ids by (metis length_map)
  then have "results (fst ?run) ! 1 \<in> set (results (fst ?run))" using len by simp
  then have "\<exists>r \<in> set (results (fst ?run)). \<not> success r" using second by force
  with t have "snd ?run \<noteq> 0" by blast
  then show ?thesis using ids second by (simp add: example_fleets_def)
qed


end
